theory Spec2Isabelle
  imports Main "HOL-Library.Sublist"
begin

section \<open>JavaScript string helpers\<close>

text \<open>
  Strings are lists of characters.  The helpers below follow the ECMAScript methods the
  sources call: a negative or missing index of \<open>substring\<close> is clamped to 0, an index
  beyond the end to the length; \<open>indexOf\<close> and \<open>lastIndexOf\<close> return \<open>-1\<close> when
  the character does not occur.
\<close>

definition backslash :: char where
  "backslash = CHR 0x5C"

definition lastIndexOf :: "char \<Rightarrow> string \<Rightarrow> int" where
  "lastIndexOf c s =
     (if c \<in> set s then int (length s) - 1 - int (length (takeWhile (\<lambda>x. x \<noteq> c) (rev s)))
      else - 1)"

definition substring_from :: "int \<Rightarrow> string \<Rightarrow> string" where
  "substring_from k s = drop (nat k) s"

definition mapi :: "(nat \<Rightarrow> 'a \<Rightarrow> 'b) \<Rightarrow> 'a list \<Rightarrow> 'b list" where
  "mapi f xs = map (\<lambda>(i, x). f i x) (enumerate 0 xs)"

section \<open>The processing queue of the renderer (App-simple.tsx)\<close>

record process_result =
  success :: bool
  file_id :: string
  one_drive_id :: string
  web_url :: string
  message :: string
  associations :: string

record FileProcessingState =
  fileName :: string
  displayName :: string
  filePath :: string
  timestamp :: int
  selectedFolder :: string
  selectedTags :: "int list"
  isProcessing :: bool
  isProcessed :: bool
  result :: "process_result option"
  error :: "string option"

subsection \<open>handleFileNameChange\<close>

definition originalExtension :: "string \<Rightarrow> string" where
  "originalExtension name = substring_from (lastIndexOf CHR ''.'' name) name"

definition finalName :: "string \<Rightarrow> string \<Rightarrow> string" where
  "finalName name newName =
     (if CHR ''.'' \<notin> set newName \<and> originalExtension name \<noteq> []
      then newName @ originalExtension name else newName)"

definition handleFileNameChange ::
  "nat \<Rightarrow> string \<Rightarrow> FileProcessingState list \<Rightarrow> FileProcessingState list" where
  "handleFileNameChange index newName prev =
     mapi (\<lambda>i file. if i = index
                     then file\<lparr>displayName := finalName (fileName file) newName\<rparr>
                     else file) prev"

text \<open>
  The extension of a file name in the words of the specification: the suffix of the name
  that starts at its last dot; a name without a dot has the empty extension.
\<close>

definition fileExtension :: "string \<Rightarrow> string" where
  "fileExtension name =
     (if CHR ''.'' \<in> set name then CHR ''.'' # rev (takeWhile (\<lambda>x. x \<noteq> CHR ''.'') (rev name))
      else [])"

subsection \<open>Detection: handleFileDetected and handleNotificationClicked\<close>

record UserPreferences =
  dropFolderPath :: string
  oneDriveRootFolder :: string
  autoProcess :: bool

text \<open>
  A handler of the React component reads the state variables of the render that created
  it.  \<open>render\<close> holds those captured values; the queue itself is always updated through
  a functional update \<open>setDetectedFiles(prev => ...)\<close>, which receives the live queue.
\<close>

record render =
  preferences :: UserPreferences
  preferencesLoaded :: bool

definition indexOf_from :: "char \<Rightarrow> nat \<Rightarrow> string \<Rightarrow> int" where
  "indexOf_from c k s =
     (if c \<in> set (drop k s) then int (k + length (takeWhile (\<lambda>x. x \<noteq> c) (drop k s)))
      else - 1)"

definition substring_to :: "int \<Rightarrow> string \<Rightarrow> string" where
  "substring_to e s = take (nat e) s"

fun includes_str :: "string \<Rightarrow> string \<Rightarrow> bool" where
  "includes_str [] sub = (sub = [])"
| "includes_str (c # cs) sub = (prefix sub (c # cs) \<or> includes_str cs sub)"

definition lastSegment :: "char \<Rightarrow> string \<Rightarrow> string" where
  "lastSegment sep s = rev (takeWhile (\<lambda>x. x \<noteq> sep) (rev s))"

definition baseName :: "string \<Rightarrow> string" where
  "baseName path =
     (if lastSegment backslash path \<noteq> [] then lastSegment backslash path
      else if lastSegment CHR ''/'' path \<noteq> [] then lastSegment CHR ''/'' path
      else ''Unknown file'')"

definition drivePrefix :: string where
  "drivePrefix = ''E:'' @ [backslash] @ ''365'' @ [backslash]"

definition stripDrivePrefix :: "string \<Rightarrow> string" where
  "stripDrivePrefix s =
     (if prefix drivePrefix s then drop (length drivePrefix) s else s)"

definition toForwardSlashes :: "string \<Rightarrow> string" where
  "toForwardSlashes s = map (\<lambda>c. if c = backslash then CHR ''/'' else c) s"

definition fileDriveRoot :: "string \<Rightarrow> string" where
  "fileDriveRoot path = substring_to (indexOf_from backslash 3 path) path"

definition displayFolderFor :: "string \<Rightarrow> string \<Rightarrow> string" where
  "displayFolderFor root path =
     (if root = ''/'' \<or> root = [] then
        (if includes_str (fileDriveRoot path) ''OneDrive''
         then ''OneDrive Root (Configure in Settings)'' else ''OneDrive Root'')
      else if backslash \<in> set root then toForwardSlashes (stripDrivePrefix root)
      else root)"

definition newFile :: "string \<Rightarrow> string \<Rightarrow> int \<Rightarrow> string \<Rightarrow> FileProcessingState" where
  "newFile name path now folder =
     \<lparr>fileName = name, displayName = name, filePath = path, timestamp = now,
      selectedFolder = folder, selectedTags = [], isProcessing = False, isProcessed = False,
      result = None, error = None\<rparr>"

text \<open>
  \<open>handleFileDetected\<close>: \<open>ref\<close> is \<open>loadedPreferencesRef.current\<close>, \<open>loadedPrefs\<close>
  the optional second argument.  \<open>currentPrefs\<close> is never absent, because the captured
  \<open>preferences\<close> is always an object, so the guard reduces to \<open>preferencesLoaded\<close>.
\<close>

definition handleFileDetected ::
  "render \<Rightarrow> UserPreferences option \<Rightarrow> int \<Rightarrow> string \<Rightarrow> UserPreferences option
     \<Rightarrow> FileProcessingState list \<Rightarrow> FileProcessingState list" where
  "handleFileDetected r ref now path loadedPrefs prev =
     (let currentPrefs = (case loadedPrefs of Some p \<Rightarrow> p
                          | None \<Rightarrow> (case ref of Some p \<Rightarrow> p | None \<Rightarrow> preferences r))
      in if \<not> preferencesLoaded r then prev
         else if list_ex (\<lambda>file. filePath file = path) prev then prev
         else prev @ [newFile (baseName path) path now
                        (displayFolderFor (oneDriveRootFolder currentPrefs) path)])"

definition handleNotificationClicked ::
  "render \<Rightarrow> UserPreferences option \<Rightarrow> int \<Rightarrow> string \<Rightarrow> string
     \<Rightarrow> FileProcessingState list \<Rightarrow> FileProcessingState list" where
  "handleNotificationClicked r ref now name path prev =
     (case ref of
        None \<Rightarrow> prev
      | Some p \<Rightarrow>
          if \<not> preferencesLoaded r then prev
          else if list_ex (\<lambda>file. filePath file = path) prev then prev
          else prev @ [newFile name path now
                         (displayFolderFor
                            (if oneDriveRootFolder p \<noteq> [] then oneDriveRootFolder p
                             else oneDriveRootFolder (preferences r)) path)])"

subsection \<open>Editing and removing entries\<close>

definition removeAt :: "nat \<Rightarrow> 'a list \<Rightarrow> 'a list" where
  "removeAt index prev = map snd (filter (\<lambda>(i, x). i \<noteq> index) (enumerate 0 prev))"

definition handleFileFolderChange ::
  "nat \<Rightarrow> string \<Rightarrow> FileProcessingState list \<Rightarrow> FileProcessingState list" where
  "handleFileFolderChange index newFolder prev =
     mapi (\<lambda>i file. if i = index then file\<lparr>selectedFolder := newFolder\<rparr> else file) prev"

definition handleFileTagToggle ::
  "nat \<Rightarrow> int \<Rightarrow> FileProcessingState list \<Rightarrow> FileProcessingState list" where
  "handleFileTagToggle index tagId prev =
     mapi (\<lambda>i file. if i = index
                     then file\<lparr>selectedTags :=
                            (if tagId \<in> set (selectedTags file)
                             then filter (\<lambda>t. t \<noteq> tagId) (selectedTags file)
                             else selectedTags file @ [tagId])\<rparr>
                     else file) prev"

text \<open>
  The events that change the queue.  Each detection event carries the render its handler
  captured, the current value of the preferences ref and the time of the event.
\<close>

datatype event =
    FileDetected render "UserPreferences option" int string "UserPreferences option"
  | NotificationClicked render "UserPreferences option" int string string
  | FileRemoved nat
  | FolderChanged nat string
  | TagToggled nat int
  | NameChanged nat string

fun apply_event :: "FileProcessingState list \<Rightarrow> event \<Rightarrow> FileProcessingState list" where
  "apply_event q (FileDetected r ref now path lp) = handleFileDetected r ref now path lp q"
| "apply_event q (NotificationClicked r ref now name path) =
     handleNotificationClicked r ref now name path q"
| "apply_event q (FileRemoved i) = removeAt i q"
| "apply_event q (FolderChanged i folder) = handleFileFolderChange i folder q"
| "apply_event q (TagToggled i t) = handleFileTagToggle i t q"
| "apply_event q (NameChanged i n) = handleFileNameChange i n q"

definition run_events :: "event list \<Rightarrow> FileProcessingState list" where
  "run_events evs = foldl apply_event [] evs"

subsection \<open>Processing one file: handleProcessSingleFile\<close>

text \<open>
  The outcome of an awaited call: the promise resolves with a value or rejects; a rejection
  is represented by the message the handler stores
  (\<open>error instanceof Error ? error.message : String(error)\<close>).
\<close>

datatype 'a outcome = Resolved 'a | Rejected string

record UserInfo =
  user_id :: string
  user_name :: string
  user_email :: string
  user_accessToken :: string
  expiresOn :: int

record upload_result =
  up_id :: string
  up_webUrl :: string

record association =
  a_file_id :: string
  a_tag_id :: int
  a_item_type :: string
  a_drive_id :: string
  a_notes :: string

record fetch_request =
  req_url :: string
  req_user_name :: string
  req_associations :: "association list"

record fetch_response =
  resp_ok :: bool
  resp_statusText :: string
  resp_json :: "string outcome"

text \<open>
  Everything the handler reads from outside the queue: the signed-in user captured by the
  render, whether the preload bridge \<open>window.electronAPI\<close> exists, the module variable
  \<open>API_BASE_URL\<close>, the text of \<open>new Date().toLocaleString()\<close>, and the results of the
  three remote calls as functions of their arguments.
\<close>

record environment =
  currentUser :: "UserInfo option"
  electronAPI :: bool
  API_BASE_URL :: string
  localeDate :: string
  uploadToOneDrive :: "string \<Rightarrow> string \<Rightarrow> string option \<Rightarrow> upload_result outcome"
  fetch :: "fetch_request \<Rightarrow> fetch_response outcome"
  deleteFile :: "string \<Rightarrow> bool outcome"

text \<open>The calls and messages a handler issues, in order.\<close>

datatype effect =
    UploadToOneDrive string string "string option"
  | Fetch fetch_request
  | DeleteFile string
  | Console string
  | Delay nat
  | Alert string

text \<open>
  How the body of the \<open>try\<close> block ends: with the final success update, with an exception
  caught by the handler, or, when \<open>window.electronAPI\<close> is missing, with neither.
\<close>

datatype processing = Completed process_result | Failed string | NoBridge

definition associationRequest ::
  "environment \<Rightarrow> UserInfo \<Rightarrow> FileProcessingState \<Rightarrow> upload_result \<Rightarrow> fetch_request" where
  "associationRequest env user file r =
     \<lparr>req_url = API_BASE_URL env @ ''/api/file-tags/associations'',
      req_user_name = (if user_name user \<noteq> [] then user_name user else ''Desktop App User''),
      req_associations =
        map (\<lambda>tagId. \<lparr>a_file_id = up_id r, a_tag_id = tagId, a_item_type = ''file'',
                       a_drive_id = ''onedrive'',
                       a_notes = ''Uploaded via BrokerNet Desktop on '' @ localeDate env\<rparr>)
            (selectedTags file)\<rparr>"

definition createAssociations ::
  "environment \<Rightarrow> UserInfo \<Rightarrow> FileProcessingState \<Rightarrow> upload_result
     \<Rightarrow> effect list \<times> string outcome" where
  "createAssociations env user file r =
     (if selectedTags file \<noteq> [] then
        (let req = associationRequest env user file r
         in case fetch env req of
              Rejected m \<Rightarrow> ([Fetch req], Rejected m)
            | Resolved tagResult \<Rightarrow>
                if \<not> resp_ok tagResult
                then ([Fetch req],
                      Rejected (''Failed to create tag associations: ''
                                @ resp_statusText tagResult))
                else ([Fetch req], resp_json tagResult))
      else ([], Resolved ''[]''))"

definition deleteProcessed :: "environment \<Rightarrow> string \<Rightarrow> effect list" where
  "deleteProcessed env path =
     (case deleteFile env path of
        Resolved deleteSuccess \<Rightarrow>
          if deleteSuccess
          then [DeleteFile path, Console ''[APP] File successfully deleted from drop folder'']
          else [DeleteFile path, Console ''[APP] Failed to delete file from drop folder'']
      | Rejected m \<Rightarrow>
          [DeleteFile path, Console (''[APP] Error deleting file from drop folder: '' @ m)])"

text \<open>
  The folder argument of the upload: \<open>undefined\<close> for the display value
  \<open>OneDrive Root\<close>, the selected folder itself otherwise.
\<close>

definition oneDriveFolder :: "FileProcessingState \<Rightarrow> string option" where
  "oneDriveFolder file =
     (if selectedFolder file = ''OneDrive Root'' then None else Some (selectedFolder file))"

definition processFile :: "environment \<Rightarrow> FileProcessingState \<Rightarrow> effect list \<times> processing" where
  "processFile env file =
     (case currentUser env of
        None \<Rightarrow> ([], Failed ''Please authenticate with Microsoft to upload files to OneDrive.'')
      | Some user \<Rightarrow>
          if \<not> electronAPI env then ([], NoBridge)
          else
            (let call = UploadToOneDrive (filePath file) (displayName file) (oneDriveFolder file)
             in case uploadToOneDrive env (filePath file) (displayName file)
                       (oneDriveFolder file) of
                  Rejected m \<Rightarrow> ([call], Failed m)
                | Resolved oneDriveResult \<Rightarrow>
                    (case createAssociations env user file oneDriveResult of
                       (fx, Rejected m) \<Rightarrow> (call # fx, Failed m)
                     | (fx, Resolved associationResult) \<Rightarrow>
                         (call # fx @ deleteProcessed env (filePath file),
                          Completed \<lparr>success = True, file_id = up_id oneDriveResult,
                                     one_drive_id = up_id oneDriveResult,
                                     web_url = up_webUrl oneDriveResult,
                                     message = ''File uploaded and tagged successfully'',
                                     associations = associationResult\<rparr>))))"

text \<open>
  \<open>handleProcessSingleFile\<close>.  \<open>detectedFiles\<close> is the queue captured by the render that
  created the handler: the guard and the arguments of the calls come from it.  The updates
  are functional updates on the live queue \<open>prev\<close>, addressed by position.  The second
  component collects the effects.  The run is taken as one step: no other event changes the
  queue while its calls are awaited.
\<close>

definition handleProcessSingleFile ::
  "environment \<Rightarrow> FileProcessingState list \<Rightarrow> nat
     \<Rightarrow> FileProcessingState list \<times> effect list \<Rightarrow> FileProcessingState list \<times> effect list" where
  "handleProcessSingleFile env detectedFiles index st =
     (if index < length detectedFiles then
        (let file = detectedFiles ! index
         in if isProcessing file \<or> isProcessed file then st
            else
              (let started = mapi (\<lambda>i f. if i = index
                                           then f\<lparr>isProcessing := True, error := None\<rparr>
                                           else f) (fst st)
               in case processFile env file of
                    (fx, Completed res) \<Rightarrow>
                      (mapi (\<lambda>i f. if i = index
                                    then f\<lparr>isProcessing := False, isProcessed := True,
                                           result := Some res\<rparr>
                                    else f) started,
                       snd st @ fx)
                  | (fx, Failed m) \<Rightarrow>
                      (mapi (\<lambda>i f. if i = index
                                    then f\<lparr>isProcessing := False, error := Some m\<rparr>
                                    else f) started,
                       snd st @ fx)
                  | (fx, NoBridge) \<Rightarrow> (started, snd st @ fx)))
      else st)"

subsection \<open>Processing the whole queue: handleProcessAllFiles\<close>

fun findIndex :: "('a \<Rightarrow> bool) \<Rightarrow> 'a list \<Rightarrow> nat option" where
  "findIndex P [] = None"
| "findIndex P (x # xs) = (if P x then Some 0 else map_option Suc (findIndex P xs))"

fun processLoop ::
  "environment \<Rightarrow> FileProcessingState list \<Rightarrow> FileProcessingState list
     \<Rightarrow> FileProcessingState list \<times> effect list \<Rightarrow> FileProcessingState list \<times> effect list" where
  "processLoop env detectedFiles [] st = st"
| "processLoop env detectedFiles (f # rest) st =
     (case findIndex (\<lambda>g. filePath g = filePath f) detectedFiles of
        None \<Rightarrow> processLoop env detectedFiles rest st
      | Some fileIndex \<Rightarrow>
          (let st1 = handleProcessSingleFile env detectedFiles fileIndex st;
               st2 = (if rest \<noteq> [] then (fst st1, snd st1 @ [Delay 1000]) else st1)
           in processLoop env detectedFiles rest st2))"

definition handleProcessAllFiles ::
  "environment \<Rightarrow> FileProcessingState list
     \<Rightarrow> FileProcessingState list \<times> effect list \<Rightarrow> FileProcessingState list \<times> effect list" where
  "handleProcessAllFiles env detectedFiles st =
     (let filesToProcess = filter (\<lambda>f. \<not> isProcessed f \<and> \<not> isProcessing f) detectedFiles
      in if filesToProcess = [] then (fst st, snd st @ [Alert ''No files ready to process.''])
         else processLoop env detectedFiles filesToProcess st)"

subsection \<open>The net effect of processing on one entry, and on the log\<close>

text \<open>
  \<open>settle\<close> composes the two updates \<open>handleProcessSingleFile\<close> applies to the entry
  it processes: the start update (\<open>isProcessing\<close> set, \<open>error\<close> cleared) followed by
  the update of the way the \<open>try\<close> block ended.  \<open>eligible\<close> is the filter of
  \<open>handleProcessAllFiles\<close>, and \<open>joinDelays\<close> puts the one-second pause between the
  effects of consecutive files.
\<close>

definition settle :: "processing \<Rightarrow> FileProcessingState \<Rightarrow> FileProcessingState" where
  "settle out f =
     (case out of
        Completed res \<Rightarrow>
          f\<lparr>isProcessing := False, isProcessed := True, result := Some res, error := None\<rparr>
      | Failed m \<Rightarrow> f\<lparr>isProcessing := False, error := Some m\<rparr>
      | NoBridge \<Rightarrow> f\<lparr>isProcessing := True, error := None\<rparr>)"

definition eligible :: "FileProcessingState \<Rightarrow> bool" where
  "eligible f \<longleftrightarrow> \<not> isProcessed f \<and> \<not> isProcessing f"

fun joinDelays :: "effect list list \<Rightarrow> effect list" where
  "joinDelays [] = []"
| "joinDelays [fx] = fx"
| "joinDelays (fx # rest) = fx @ [Delay 1000] @ joinDelays rest"

subsection \<open>Sample environments\<close>

definition sampleUser :: UserInfo where
  "sampleUser = \<lparr>user_id = ''u-1'', user_name = ''Pat'', user_email = ''pat@example.org'',
                  user_accessToken = ''token'', expiresOn = 0\<rparr>"

text \<open>
  A signed-in session in which every upload and association call succeeds, except the upload
  of \<open>/drop/broken.pdf\<close>, and in which the source file cannot be deleted.
\<close>

definition sampleEnv :: environment where
  "sampleEnv =
     \<lparr>currentUser = Some sampleUser, electronAPI = True,
      API_BASE_URL = ''https://api.example.org'', localeDate = ''1/1/2025, 9:00:00 AM'',
      uploadToOneDrive = (\<lambda>path name folder.
         if path = ''/drop/broken.pdf'' then Rejected ''Upload failed with status 401: {}''
         else Resolved \<lparr>up_id = ''item-'' @ name, up_webUrl = ''https://drive.example.org/'' @ name\<rparr>),
      fetch = (\<lambda>req. Resolved \<lparr>resp_ok = True, resp_statusText = ''OK'',
                                    resp_json = Resolved ''[{}]''\<rparr>),
      deleteFile = (\<lambda>path. Resolved False)\<rparr>"

text \<open>
  A queue of three entries: one whose upload fails in \<open>sampleEnv\<close>, one already
  processed, and one still waiting with a folder chosen.
\<close>

definition sampleQueue :: "FileProcessingState list" where
  "sampleQueue =
     [newFile ''broken.pdf'' ''/drop/broken.pdf'' 0 ''OneDrive Root'',
      (newFile ''done.pdf'' ''/drop/done.pdf'' 1 ''OneDrive Root'')\<lparr>isProcessed := True\<rparr>,
      newFile ''invoice.pdf'' ''/drop/invoice.pdf'' 2 ''Finance/2024'']"

text \<open>
  The same queue after the user has started the third entry: what the live queue holds
  while a handler created before that click still sees \<open>sampleQueue\<close>.
\<close>

definition sampleQueueStarted :: "FileProcessingState list" where
  "sampleQueueStarted =
     [newFile ''broken.pdf'' ''/drop/broken.pdf'' 0 ''OneDrive Root'',
      (newFile ''done.pdf'' ''/drop/done.pdf'' 1 ''OneDrive Root'')\<lparr>isProcessed := True\<rparr>,
      (newFile ''invoice.pdf'' ''/drop/invoice.pdf'' 2 ''Finance/2024'')\<lparr>isProcessing := True\<rparr>]"

section \<open>The key/value cache of the local store (DatabaseManager)\<close>

text \<open>
  A row of the \<open>cache\<close> table.  \<open>expires_at\<close> is kept as the number of milliseconds
  since the epoch: the text column holds \<open>toISOString()\<close> of that instant and
  \<open>new Date(text)\<close> reads the same instant back.  The table has \<open>key\<close> as its primary
  key, so it is a map; \<open>db\<close> is \<open>None\<close> in the mock mode the manager falls back to when
  the store cannot be opened.  \<open>JSON.parse\<close> is a parameter: \<open>parse\<close> gives \<open>None\<close>
  when it throws, and the \<open>catch\<close> block then returns \<open>null\<close>.
\<close>

record cache_row =
  row_value :: string
  expires_at :: int

type_synonym cache_db = "(string \<rightharpoonup> cache_row) option"

definition getCachedData ::
  "(string \<Rightarrow> 'v option) \<Rightarrow> int \<Rightarrow> string \<Rightarrow> cache_db \<Rightarrow> 'v option \<times> cache_db" where
  "getCachedData parse now key db =
     (case db of
        None \<Rightarrow> (None, db)
      | Some cache \<Rightarrow>
          (case cache key of
             None \<Rightarrow> (None, db)
           | Some row \<Rightarrow>
               if expires_at row < now then (None, Some (cache(key := None)))
               else (parse (row_value row), db)))"

section \<open>The remote drive client (oneDriveService.ts)\<close>

subsection \<open>Exceptions, requests and responses\<close>

text \<open>
  An exception as the \<open>catch\<close> blocks tell exceptions apart: an axios error that carries
  \<open>error.response\<close> (its status, and \<open>JSON.stringify\<close> of its data), an axios error
  with \<open>error.request\<close> but no response (its message), and any other exception (its
  message).
\<close>

datatype js_error = ResponseError nat string | RequestError string | OtherError string

fun decimal :: "nat \<Rightarrow> string" where
  "decimal n =
     (if n < 10 then [''0123456789'' ! n]
      else decimal (n div 10) @ [''0123456789'' ! (n mod 10)])"

declare decimal.simps [simp del]

record OneDriveFile =
  odf_id :: string
  odf_name :: string
  odf_webUrl :: string
  odf_size :: nat
  odf_createdDateTime :: string
  odf_lastModifiedDateTime :: string

record OneDriveFolder =
  folder_id :: string
  folder_name :: string
  folder_webUrl :: string
  folder_createdDateTime :: string
  folder_lastModifiedDateTime :: string

text \<open>
  \<open>response.data\<close>: the fields the client reads from a drive item, and \<open>uploadUrl\<close>
  of an upload session.
\<close>

record payload =
  p_id :: string
  p_name :: string
  p_webUrl :: string
  p_size :: nat
  p_createdDateTime :: string
  p_lastModifiedDateTime :: string
  p_uploadUrl :: string

record http_response =
  status :: nat
  statusText :: string
  data :: payload

text \<open>
  The endpoints the client addresses; \<open>url_of\<close> gives the URL the source builds for each.
\<close>

datatype endpoint =
    CreateUploadSessionAt string string
  | SessionUpload string
  | ContentAt string string
  | ItemByPath string string
  | ItemById string string
  | ChildrenOf string string

definition graphDrives :: string where
  "graphDrives = ''https://graph.microsoft.com/v1.0/drives/''"

fun url_of :: "endpoint \<Rightarrow> string" where
  "url_of (CreateUploadSessionAt driveId path) =
     graphDrives @ driveId @ ''/root:/'' @ path @ '':/createUploadSession''"
| "url_of (SessionUpload sessionUploadUrl) = sessionUploadUrl"
| "url_of (ContentAt driveId path) = graphDrives @ driveId @ ''/root:/'' @ path @ '':/content''"
| "url_of (ItemByPath driveId path) = graphDrives @ driveId @ ''/root:/'' @ path"
| "url_of (ItemById driveId itemId) = graphDrives @ driveId @ ''/items/'' @ itemId"
| "url_of (ChildrenOf driveId parentId) =
     graphDrives @ driveId @ ''/items/'' @ parentId @ ''/children''"

datatype http_method = GET | POST | PUT

text \<open>
  Request bodies: \<open>{item: {name, file: {}}}\<close> of a session, \<open>{name, folder: {},
  '@microsoft.graph.conflictBehavior': behaviour}\<close> of a folder creation, the file buffer.
\<close>

datatype body = NoBody | SessionItem string | NewFolder string string | FileBuffer "nat list"

record http_request =
  rq_method :: http_method
  rq_endpoint :: endpoint
  rq_headers :: "(string \<times> string) list"
  rq_body :: body

record drive =
  drive_id :: string
  drive_name :: "string option"
  driveType :: string

text \<open>
  The collaborators of the service.  \<open>authService\<close> is not part of the sources at hand, so
  the results of \<open>getAccessToken\<close> and \<open>getOneDriveDrives\<close> are parameters, as are
  \<open>JSON.stringify\<close> on the list of drives and \<open>fs.readFileSync\<close>.  \<open>axios\<close> is the
  remote side: it answers a request in a state \<open>'w\<close> of the remote world and gives the
  next state.
\<close>

record 'w platform =
  getAccessToken :: "js_error + string"
  getOneDriveDrives :: "js_error + drive list"
  stringifyDrives :: "drive list \<Rightarrow> string"
  readFileSync :: "string \<Rightarrow> js_error + nat list"
  axios :: "'w \<Rightarrow> http_request \<Rightarrow> (js_error + http_response) \<times> 'w"

text \<open>
  The state of the service object (\<open>currentDriveId\<close>), the remote world, and the requests
  sent so far.
\<close>

record 'w service =
  currentDriveId :: "string option"
  world :: 'w
  sent :: "http_request list"

definition request ::
  "'w platform \<Rightarrow> http_request \<Rightarrow> 'w service \<Rightarrow> (js_error + http_response) \<times> 'w service" where
  "request pf rq s =
     (case axios pf (world s) rq of
        (answer, w) \<Rightarrow> (answer, s\<lparr>world := w, sent := sent s @ [rq]\<rparr>))"

subsection \<open>getDefaultDrive\<close>

definition toLowerCase :: "string \<Rightarrow> string" where
  "toLowerCase s =
     map (\<lambda>c. if 65 \<le> (of_char c :: nat) \<and> (of_char c :: nat) \<le> 90
               then char_of ((of_char c :: nat) + 32) else c) s"

definition pickDrive :: "drive list \<Rightarrow> drive option" where
  "pickDrive drives =
     (case find (\<lambda>d. driveType d = ''personal'') drives of
        Some d \<Rightarrow> Some d
      | None \<Rightarrow>
          (case find (\<lambda>d. case drive_name d of
                             Some n \<Rightarrow> n \<noteq> [] \<and> includes_str (toLowerCase n) ''onedrive''
                           | None \<Rightarrow> False) drives of
             Some d \<Rightarrow> Some d
           | None \<Rightarrow> (case drives of [] \<Rightarrow> None | d # _ \<Rightarrow> Some d)))"

definition getDefaultDrive ::
  "'w platform \<Rightarrow> 'w service \<Rightarrow> (js_error + string \<times> string) \<times> 'w service" where
  "getDefaultDrive pf s =
     (case getOneDriveDrives pf of
        Inl e \<Rightarrow> (Inl e, s)
      | Inr drives \<Rightarrow>
          (case pickDrive drives of
             None \<Rightarrow>
               (Inl (OtherError (''No OneDrive drives found. Available drives: ''
                                 @ stringifyDrives pf drives)), s)
           | Some personalDrive \<Rightarrow>
               (Inr (drive_id personalDrive,
                     (case drive_name personalDrive of
                        Some n \<Rightarrow> if n \<noteq> [] then n else ''OneDrive''
                      | None \<Rightarrow> ''OneDrive'')),
                s\<lparr>currentDriveId := Some (drive_id personalDrive)\<rparr>)))"

text \<open>\<open>this.currentDriveId || (await this.getDefaultDrive()).id\<close>\<close>

definition resolveDriveId :: "'w platform \<Rightarrow> 'w service \<Rightarrow> (js_error + string) \<times> 'w service" where
  "resolveDriveId pf s =
     (case currentDriveId s of
        Some d \<Rightarrow>
          if d \<noteq> [] then (Inr d, s)
          else (case getDefaultDrive pf s of
                  (Inl e, s1) \<Rightarrow> (Inl e, s1) | (Inr found, s1) \<Rightarrow> (Inr (fst found), s1))
      | None \<Rightarrow>
          (case getDefaultDrive pf s of
             (Inl e, s1) \<Rightarrow> (Inl e, s1) | (Inr found, s1) \<Rightarrow> (Inr (fst found), s1)))"

subsection \<open>uploadFile\<close>

definition rootAlias :: string where
  "rootAlias = ''OneDrive - Broadlink/''"

definition stripRootAlias :: "string \<Rightarrow> string" where
  "stripRootAlias s = (if prefix rootAlias s then drop (length rootAlias) s else s)"

text \<open>The folder argument defaults to \<open>root\<close> when it is left out.\<close>

definition targetPathOf :: "string option \<Rightarrow> string" where
  "targetPathOf folderArg =
     (let folderPath = (case folderArg of None \<Rightarrow> ''root'' | Some p \<Rightarrow> p)
      in if folderPath \<noteq> [] \<and> folderPath \<noteq> ''root'' then
           (if backslash \<in> set folderPath
            then stripRootAlias (toForwardSlashes (stripDrivePrefix folderPath))
            else stripRootAlias folderPath)
         else ''root'')"

definition bearer :: "string \<Rightarrow> string \<times> string" where
  "bearer token = (''Authorization'', ''Bearer '' @ token)"

definition sessionRequest :: "string \<Rightarrow> string \<Rightarrow> string \<Rightarrow> string \<Rightarrow> http_request" where
  "sessionRequest accessToken driveId targetPath uploadName =
     \<lparr>rq_method = POST,
      rq_endpoint = (if targetPath = ''root'' then CreateUploadSessionAt driveId uploadName
                     else CreateUploadSessionAt driveId (targetPath @ ''/'' @ uploadName)),
      rq_headers = [bearer accessToken, (''Content-Type'', ''application/json'')],
      rq_body = SessionItem uploadName\<rparr>"

definition sessionPut :: "string \<Rightarrow> nat list \<Rightarrow> http_request" where
  "sessionPut sessionUploadUrl fileBuffer =
     \<lparr>rq_method = PUT, rq_endpoint = SessionUpload sessionUploadUrl,
      rq_headers = [(''Content-Type'', ''application/octet-stream''),
                    (''Content-Length'', decimal (length fileBuffer))],
      rq_body = FileBuffer fileBuffer\<rparr>"

definition fallbackRequest :: "string \<Rightarrow> string \<Rightarrow> string \<Rightarrow> string \<Rightarrow> nat list \<Rightarrow> http_request" where
  "fallbackRequest accessToken driveId targetPath uploadName fileBuffer =
     \<lparr>rq_method = PUT,
      rq_endpoint = (if targetPath = ''root'' then ContentAt driveId uploadName
                     else ContentAt driveId (targetPath @ ''/'' @ uploadName)),
      rq_headers = [bearer accessToken, (''Content-Type'', ''application/octet-stream''),
                    (''Content-Length'', decimal (length fileBuffer))],
      rq_body = FileBuffer fileBuffer\<rparr>"

definition handleUploadResponse :: "http_response \<Rightarrow> js_error + OneDriveFile" where
  "handleUploadResponse response =
     (if 200 \<le> status response \<and> status response < 300
      then Inr \<lparr>odf_id = p_id (data response), odf_name = p_name (data response),
                odf_webUrl = p_webUrl (data response), odf_size = p_size (data response),
                odf_createdDateTime = p_createdDateTime (data response),
                odf_lastModifiedDateTime = p_lastModifiedDateTime (data response)\<rparr>
      else Inl (OtherError (''Upload failed with status '' @ decimal (status response)
                            @ '': '' @ statusText response)))"

text \<open>The inner \<open>try\<close> block: create the session, then send the bytes to its URL.\<close>

definition sessionUpload ::
  "'w platform \<Rightarrow> string \<Rightarrow> string \<Rightarrow> string \<Rightarrow> string \<Rightarrow> nat list \<Rightarrow> 'w service
     \<Rightarrow> (js_error + OneDriveFile) \<times> 'w service" where
  "sessionUpload pf accessToken driveId targetPath uploadName fileBuffer s =
     (case request pf (sessionRequest accessToken driveId targetPath uploadName) s of
        (Inl e, s1) \<Rightarrow> (Inl e, s1)
      | (Inr sessionResponse, s1) \<Rightarrow>
          (case request pf (sessionPut (p_uploadUrl (data sessionResponse)) fileBuffer) s1 of
             (Inl e, s2) \<Rightarrow> (Inl e, s2)
           | (Inr uploadResponse, s2) \<Rightarrow> (handleUploadResponse uploadResponse, s2)))"

text \<open>Its \<open>catch\<close> block: one direct upload; its exception is thrown on.\<close>

definition simpleUpload ::
  "'w platform \<Rightarrow> string \<Rightarrow> string \<Rightarrow> string \<Rightarrow> string \<Rightarrow> nat list \<Rightarrow> 'w service
     \<Rightarrow> (js_error + OneDriveFile) \<times> 'w service" where
  "simpleUpload pf accessToken driveId targetPath uploadName fileBuffer s =
     (case request pf (fallbackRequest accessToken driveId targetPath uploadName fileBuffer) s of
        (Inl fallbackError, s1) \<Rightarrow> (Inl fallbackError, s1)
      | (Inr response, s1) \<Rightarrow> (handleUploadResponse response, s1))"

text \<open>The outer \<open>catch\<close> block turns any exception into the message of the error thrown.\<close>

definition uploadErrorMessage :: "js_error \<Rightarrow> string" where
  "uploadErrorMessage e =
     (case e of
        ResponseError st responseData \<Rightarrow>
          ''Upload failed with status '' @ decimal st @ '': '' @ responseData
      | RequestError m \<Rightarrow> ''Network error during upload: '' @ m
      | OtherError m \<Rightarrow> ''Upload error: '' @ m)"

definition uploadFile ::
  "'w platform \<Rightarrow> string \<Rightarrow> string \<Rightarrow> string option \<Rightarrow> 'w service
     \<Rightarrow> (string + OneDriveFile) \<times> 'w service" where
  "uploadFile pf path uploadName folderArg s =
     (case getAccessToken pf of
        Inl e \<Rightarrow> (Inl (uploadErrorMessage e), s)
      | Inr accessToken \<Rightarrow>
          (case resolveDriveId pf s of
             (Inl e, s1) \<Rightarrow> (Inl (uploadErrorMessage e), s1)
           | (Inr driveId, s1) \<Rightarrow>
               (case readFileSync pf path of
                  Inl e \<Rightarrow> (Inl (uploadErrorMessage e), s1)
                | Inr fileBuffer \<Rightarrow>
                    (case sessionUpload pf accessToken driveId (targetPathOf folderArg)
                            uploadName fileBuffer s1 of
                       (Inr file, s2) \<Rightarrow> (Inr file, s2)
                     | (Inl e, s2) \<Rightarrow>
                         (case simpleUpload pf accessToken driveId (targetPathOf folderArg)
                                 uploadName fileBuffer s2 of
                            (Inr file, s3) \<Rightarrow> (Inr file, s3)
                          | (Inl fallbackError, s3) \<Rightarrow>
                              (Inl (uploadErrorMessage fallbackError), s3))))))"

subsection \<open>createFolder and findFolderByPath\<close>

definition folderOf :: "payload \<Rightarrow> OneDriveFolder" where
  "folderOf item =
     \<lparr>folder_id = p_id item, folder_name = p_name item, folder_webUrl = p_webUrl item,
      folder_createdDateTime = p_createdDateTime item,
      folder_lastModifiedDateTime = p_lastModifiedDateTime item\<rparr>"

definition createRequest :: "string \<Rightarrow> string \<Rightarrow> string \<Rightarrow> string \<Rightarrow> http_request" where
  "createRequest token driveId folderName parentFolderId =
     \<lparr>rq_method = POST, rq_endpoint = ChildrenOf driveId parentFolderId,
      rq_headers = [bearer token, (''Content-Type'', ''application/json'')],
      rq_body = NewFolder folderName ''rename''\<rparr>"

definition createFolder ::
  "'w platform \<Rightarrow> string \<Rightarrow> string \<Rightarrow> 'w service \<Rightarrow> (js_error + OneDriveFolder) \<times> 'w service" where
  "createFolder pf folderName parentFolderId s =
     (case getAccessToken pf of
        Inl e \<Rightarrow> (Inl e, s)
      | Inr token \<Rightarrow>
          (case resolveDriveId pf s of
             (Inl e, s1) \<Rightarrow> (Inl e, s1)
           | (Inr driveId, s1) \<Rightarrow>
               (case request pf (createRequest token driveId folderName parentFolderId) s1 of
                  (Inl e, s2) \<Rightarrow> (Inl e, s2)
                | (Inr response, s2) \<Rightarrow>
                    if 200 \<le> status response \<and> status response < 300
                    then (Inr (folderOf (data response)), s2)
                    else (Inl (OtherError (''Folder creation failed with status ''
                                           @ decimal (status response) @ '': ''
                                           @ statusText response)), s2))))"

text \<open>\<open>split\<close> of a string at a separator character, as \<open>String.prototype.split\<close>.\<close>

fun split_on :: "char \<Rightarrow> string \<Rightarrow> string list" where
  "split_on c [] = [[]]"
| "split_on c (x # xs) =
     (if x = c then [] # split_on c xs
      else (case split_on c xs of [] \<Rightarrow> [[x]] | part # parts \<Rightarrow> (x # part) # parts))"

definition cleanPathOf :: "string \<Rightarrow> string" where
  "cleanPathOf folderPath =
     (let afterDrive = (if CHR '':'' \<in> set folderPath
                        then drop (Suc (length (takeWhile (\<lambda>c. c \<noteq> CHR '':'') folderPath)))
                               folderPath
                        else folderPath);
          slashed = toForwardSlashes afterDrive;
          noLeading = dropWhile (\<lambda>c. c = CHR ''/'') slashed
      in rev (dropWhile (\<lambda>c. c = CHR ''/'') (rev noLeading)))"

definition pathParts :: "string \<Rightarrow> string list" where
  "pathParts cleanPath = filter (\<lambda>part. part \<noteq> []) (split_on CHR ''/'' cleanPath)"

text \<open>
  The loop over the path parts: each part is created under the folder created for the part
  before it, starting at \<open>root\<close>; the first failure ends the search with \<open>null\<close>.
\<close>

fun createParts ::
  "'w platform \<Rightarrow> string list \<Rightarrow> string \<Rightarrow> 'w service \<Rightarrow> string option \<times> 'w service" where
  "createParts pf [] currentFolderId s = (Some currentFolderId, s)"
| "createParts pf (part # rest) currentFolderId s =
     (case createFolder pf part currentFolderId s of
        (Inl createError, s1) \<Rightarrow> (None, s1)
      | (Inr folder, s1) \<Rightarrow> createParts pf rest (folder_id folder) s1)"

definition lookupRequest :: "string \<Rightarrow> endpoint \<Rightarrow> http_request" where
  "lookupRequest token target =
     \<lparr>rq_method = GET, rq_endpoint = target, rq_headers = [bearer token], rq_body = NoBody\<rparr>"

definition findFolderByPath ::
  "'w platform \<Rightarrow> string \<Rightarrow> 'w service \<Rightarrow> OneDriveFolder option \<times> 'w service" where
  "findFolderByPath pf folderPath s =
     (case getAccessToken pf of
        Inl e \<Rightarrow> (None, s)
      | Inr token \<Rightarrow>
          (case resolveDriveId pf s of
             (Inl e, s1) \<Rightarrow> (None, s1)
           | (Inr driveId, s1) \<Rightarrow>
               (case request pf
                       (lookupRequest token (ItemByPath driveId (cleanPathOf folderPath))) s1 of
                  (Inr response, s2) \<Rightarrow> (Some (folderOf (data response)), s2)
                | (Inl getError, s2) \<Rightarrow>
                    (case getError of
                       ResponseError st responseData \<Rightarrow>
                         if st = 404 then
                           (case createParts pf (pathParts (cleanPathOf folderPath))
                                   ''root'' s2 of
                              (None, s3) \<Rightarrow> (None, s3)
                            | (Some currentFolderId, s3) \<Rightarrow>
                                (case request pf
                                        (lookupRequest token (ItemById driveId currentFolderId))
                                        s3 of
                                   (Inr finalResponse, s4) \<Rightarrow>
                                     (Some (folderOf (data finalResponse)), s4)
                                 | (Inl e, s4) \<Rightarrow> (None, s4)))
                         else (None, s2)
                     | RequestError m \<Rightarrow> (None, s2)
                     | OtherError m \<Rightarrow> (None, s2)))))"

subsection \<open>A remote drive to run the client against\<close>

text \<open>
  The folder endpoints of the storage service, in the behaviour its documentation gives
  them: a lookup by path walks the folder names from the root and answers 404 when a name is
  missing; creating a child with conflict behaviour \<open>rename\<close> always creates a new folder,
  under a name with a numeric suffix when the requested name is taken; with any other
  conflict behaviour a taken name is refused with 409.  The world is the list of folders.
\<close>

record remote_folder =
  rf_id :: string
  rf_parent :: string
  rf_name :: string

definition childNamed :: "remote_folder list \<Rightarrow> string \<Rightarrow> string \<Rightarrow> remote_folder option" where
  "childNamed folders parent nm = find (\<lambda>f. rf_parent f = parent \<and> rf_name f = nm) folders"

fun resolvePath :: "remote_folder list \<Rightarrow> string \<Rightarrow> string list \<Rightarrow> string option" where
  "resolvePath folders current [] = Some current"
| "resolvePath folders current (nm # rest) =
     (case childNamed folders current nm of
        None \<Rightarrow> None
      | Some f \<Rightarrow> resolvePath folders (rf_id f) rest)"

definition freeName :: "remote_folder list \<Rightarrow> string \<Rightarrow> string \<Rightarrow> string" where
  "freeName folders parent nm =
     (if childNamed folders parent nm = None then nm
      else (case find (\<lambda>k. childNamed folders parent (nm @ '' '' @ decimal k) = None)
                   [1 ..< length folders + 2] of
              Some k \<Rightarrow> nm @ '' '' @ decimal k
            | None \<Rightarrow> nm))"

definition itemOf :: "remote_folder list \<Rightarrow> string \<Rightarrow> payload" where
  "itemOf folders itemId =
     \<lparr>p_id = itemId,
      p_name = (case find (\<lambda>f. rf_id f = itemId) folders of
                  Some f \<Rightarrow> rf_name f | None \<Rightarrow> ''root''),
      p_webUrl = ''https://drive.example.org/'' @ itemId, p_size = 0,
      p_createdDateTime = ''2025-01-01T09:00:00Z'',
      p_lastModifiedDateTime = ''2025-01-01T09:00:00Z'', p_uploadUrl = []\<rparr>"

definition notFound :: js_error where
  "notFound = ResponseError 404 ''{error: itemNotFound}''"

definition graphFolders ::
  "remote_folder list \<Rightarrow> http_request \<Rightarrow> (js_error + http_response) \<times> remote_folder list" where
  "graphFolders folders rq =
     (case rq_endpoint rq of
        ItemByPath driveId path \<Rightarrow>
          (case resolvePath folders ''root'' (pathParts path) of
             None \<Rightarrow> (Inl notFound, folders)
           | Some itemId \<Rightarrow>
               (Inr \<lparr>status = 200, statusText = ''OK'', data = itemOf folders itemId\<rparr>, folders))
      | ItemById driveId itemId \<Rightarrow>
          if itemId = ''root'' \<or> list_ex (\<lambda>f. rf_id f = itemId) folders
          then (Inr \<lparr>status = 200, statusText = ''OK'', data = itemOf folders itemId\<rparr>, folders)
          else (Inl notFound, folders)
      | ChildrenOf driveId parent \<Rightarrow>
          (case rq_body rq of
             NewFolder nm behaviour \<Rightarrow>
               if behaviour \<noteq> ''rename'' \<and> childNamed folders parent nm \<noteq> None
               then (Inl (ResponseError 409 ''{error: nameAlreadyExists}''), folders)
               else
                 (let created = \<lparr>rf_id = ''folder-'' @ decimal (Suc (length folders)),
                                 rf_parent = parent, rf_name = freeName folders parent nm\<rparr>
                  in (Inr \<lparr>status = 201, statusText = ''Created'',
                            data = itemOf (folders @ [created]) (rf_id created)\<rparr>,
                      folders @ [created]))
           | NoBody \<Rightarrow> (Inl (ResponseError 400 ''{error: invalidRequest}''), folders)
           | SessionItem nm \<Rightarrow> (Inl (ResponseError 400 ''{error: invalidRequest}''), folders)
           | FileBuffer bytes \<Rightarrow> (Inl (ResponseError 400 ''{error: invalidRequest}''), folders))
      | CreateUploadSessionAt driveId path \<Rightarrow>
          (Inl (ResponseError 400 ''{error: invalidRequest}''), folders)
      | SessionUpload sessionUploadUrl \<Rightarrow>
          (Inl (ResponseError 400 ''{error: invalidRequest}''), folders)
      | ContentAt driveId path \<Rightarrow>
          (Inl (ResponseError 400 ''{error: invalidRequest}''), folders))"

definition graphPlatform :: "remote_folder list platform" where
  "graphPlatform =
     \<lparr>getAccessToken = Inr ''token'', getOneDriveDrives = Inr [],
      stringifyDrives = (\<lambda>drives. ''[]''), readFileSync = (\<lambda>path. Inr []),
      axios = graphFolders\<rparr>"

text \<open>A drive whose root holds the single folder \<open>A\<close>.\<close>

definition driveWithA :: "remote_folder list service" where
  "driveWithA =
     \<lparr>currentDriveId = Some ''drive-1'',
      world = [\<lparr>rf_id = ''folder-1'', rf_parent = ''root'', rf_name = ''A''\<rparr>],
      sent = []\<rparr>"

subsection \<open>Sample platforms\<close>

text \<open>
  A service that already knows its drive, and three platforms for it: one whose remote side
  rejects the session with status 500 and the direct upload with status 401, one without
  network (no request gets a response), and one whose token cannot be acquired.
\<close>

definition sampleService :: "unit service" where
  "sampleService = \<lparr>currentDriveId = Some ''drive-1'', world = (), sent = []\<rparr>"

definition rejectingPlatform :: "unit platform" where
  "rejectingPlatform =
     \<lparr>getAccessToken = Inr ''token'', getOneDriveDrives = Inr [],
      stringifyDrives = (\<lambda>drives. ''[]''), readFileSync = (\<lambda>path. Inr [80, 68, 70]),
      axios = (\<lambda>w rq. if rq_method rq = POST
                       then (Inl (ResponseError 500 ''{error: generalException}''), w)
                       else (Inl (ResponseError 401 ''{error: InvalidAuthenticationToken}''), w))\<rparr>"

definition offlinePlatform :: "unit platform" where
  "offlinePlatform =
     rejectingPlatform\<lparr>axios := (\<lambda>w rq. (Inl (RequestError ''socket hang up''), w))\<rparr>"

definition signedOutPlatform :: "unit platform" where
  "signedOutPlatform =
     rejectingPlatform\<lparr>getAccessToken := Inl (OtherError ''interaction_required'')\<rparr>"

text \<open>
  A service that does not know its drive yet (no drive is listed on these platforms), and a
  platform on which the local file cannot be read.
\<close>

definition newService :: "unit service" where
  "newService = \<lparr>currentDriveId = None, world = (), sent = []\<rparr>"

definition unreadablePlatform :: "unit platform" where
  "unreadablePlatform =
     rejectingPlatform\<lparr>readFileSync :=
        (\<lambda>path. Inl (OtherError ''ENOENT: no such file or directory''))\<rparr>"

section \<open>Properties\<close>

lemma length_mapi [simp]: "length (mapi f xs) = length xs"
  by (simp add: mapi_def)

lemma nth_mapi [simp]: "i < length xs \<Longrightarrow> mapi f xs ! i = f i (xs ! i)"
  by (simp add: mapi_def nth_enumerate_eq)

lemma length_takeWhile_mem:
  "c \<in> set s \<Longrightarrow> length (takeWhile (\<lambda>x. x \<noteq> c) s) < length s"
  by (induction s) auto

lemma drop_last_occurrence:
  "c \<in> set s \<Longrightarrow>
   drop (length s - Suc (length (takeWhile (\<lambda>x. x \<noteq> c) (rev s)))) s
     = c # rev (takeWhile (\<lambda>x. x \<noteq> c) (rev s))"
proof (induction s rule: rev_induct)
  case Nil
  then show ?case by simp
next
  case (snoc x xs)
  show ?case
  proof (cases "x = c")
    case True
    then show ?thesis by simp
  next
    case False
    with snoc.prems have mem: "c \<in> set xs" by simp
    then have len: "length (takeWhile (\<lambda>x. x \<noteq> c) (rev xs)) < length xs"
      using length_takeWhile_mem [of c "rev xs"] by simp
    from False snoc.IH [OF mem] len show ?thesis by (simp add: Suc_diff_Suc)
  qed
qed

lemma originalExtension_dot:
  "CHR ''.'' \<in> set name \<Longrightarrow> originalExtension name = fileExtension name"
proof -
  assume mem: "CHR ''.'' \<in> set name"
  then have "length (takeWhile (\<lambda>x. x \<noteq> CHR ''.'') (rev name)) < length name"
    using length_takeWhile_mem [of "CHR ''.''" "rev name"] by simp
  then have "nat (int (length name) - 1 - int (length (takeWhile (\<lambda>x. x \<noteq> CHR ''.'') (rev name))))
               = length name - 1 - length (takeWhile (\<lambda>x. x \<noteq> CHR ''.'') (rev name))"
    by linarith
  with mem show ?thesis
    by (simp add: originalExtension_def fileExtension_def lastIndexOf_def substring_from_def
        drop_last_occurrence)
qed

lemma originalExtension_no_dot:
  "CHR ''.'' \<notin> set name \<Longrightarrow> originalExtension name = name"
  by (simp add: originalExtension_def lastIndexOf_def substring_from_def)

lemma fileExtension_split:
  "CHR ''.'' \<notin> set ext \<Longrightarrow> fileExtension (stem @ CHR ''.'' # ext) = CHR ''.'' # ext"
proof -
  assume "CHR ''.'' \<notin> set ext"
  then have "takeWhile (\<lambda>x. x \<noteq> CHR ''.'') (rev ext @ CHR ''.'' # rev stem) = rev ext"
    by (induction ext rule: rev_induct) auto
  then show ?thesis by (simp add: fileExtension_def)
qed

subsection \<open>Renaming the upload name\<close>

lemma displayName_handleFileNameChange:
  "index < length prev \<Longrightarrow>
   displayName (handleFileNameChange index newName prev ! index)
     = finalName (fileName (prev ! index)) newName"
  by (simp add: handleFileNameChange_def)

text \<open>
  C5.  Renaming the entry at a valid index to a name without a dot gives a display name that
  ends with the extension of the original file name (the suffix starting at the last dot);
  when the original name has a dot, the display name is exactly the new name followed by
  that extension.
\<close>

theorem rename_preserves_extension:
  "index < length prev \<Longrightarrow> CHR ''.'' \<notin> set newName \<Longrightarrow>
   suffix (fileExtension (fileName (prev ! index)))
          (displayName (handleFileNameChange index newName prev ! index))
   \<and> (CHR ''.'' \<in> set (fileName (prev ! index)) \<longrightarrow>
        displayName (handleFileNameChange index newName prev ! index)
          = newName @ fileExtension (fileName (prev ! index)))"
proof -
  assume idx: "index < length prev" and nodot: "CHR ''.'' \<notin> set newName"
  let ?name = "fileName (prev ! index)"
  show ?thesis
  proof (cases "CHR ''.'' \<in> set ?name")
    case True
    then have "originalExtension ?name = fileExtension ?name"
      by (rule originalExtension_dot)
    moreover from True have "fileExtension ?name \<noteq> []"
      by (simp add: fileExtension_def)
    ultimately show ?thesis
      using idx nodot True
      by (simp add: displayName_handleFileNameChange finalName_def suffix_def)
  next
    case False
    then show ?thesis by (simp add: fileExtension_def suffix_def)
  qed
qed

theorem rename_preserves_extension_witness:
  "(0::nat) < length [\<lparr>fileName = ''invoice.pdf'', displayName = ''invoice.pdf'',
        filePath = ''/drop/invoice.pdf'', timestamp = 0, selectedFolder = ''OneDrive Root'',
        selectedTags = [], isProcessing = False, isProcessed = False, result = None,
        error = None\<rparr>]
   \<and> CHR ''.'' \<notin> set ''bill''
   \<and> CHR ''.'' \<in> set ''invoice.pdf''
   \<and> fileExtension ''invoice.pdf'' = ''.pdf''
   \<and> displayName (handleFileNameChange 0 ''bill''
        [\<lparr>fileName = ''invoice.pdf'', displayName = ''invoice.pdf'',
          filePath = ''/drop/invoice.pdf'', timestamp = 0, selectedFolder = ''OneDrive Root'',
          selectedTags = [], isProcessing = False, isProcessed = False, result = None,
          error = None\<rparr>] ! 0) = ''bill.pdf''"
  using rename_preserves_extension [of 0
      "[\<lparr>fileName = ''invoice.pdf'', displayName = ''invoice.pdf'',
         filePath = ''/drop/invoice.pdf'', timestamp = 0, selectedFolder = ''OneDrive Root'',
         selectedTags = [], isProcessing = False, isProcessed = False, result = None,
         error = None\<rparr>]" "''bill''"]
  by (simp add: fileExtension_def)

text \<open>
  C10.  When neither the original file name nor the new name contains a dot, the computed
  extension is the whole original name (\<open>lastIndexOf\<close> gives \<open>-1\<close>, which
  \<open>substring\<close> clamps to 0), so the display name becomes the new name followed by the
  entire original file name.
\<close>

theorem rename_without_dots_appends_fileName:
  "index < length prev \<Longrightarrow> CHR ''.'' \<notin> set (fileName (prev ! index)) \<Longrightarrow>
   CHR ''.'' \<notin> set newName \<Longrightarrow>
   originalExtension (fileName (prev ! index)) = fileName (prev ! index)
   \<and> displayName (handleFileNameChange index newName prev ! index)
        = newName @ fileName (prev ! index)"
  by (simp add: displayName_handleFileNameChange finalName_def originalExtension_no_dot)

theorem rename_without_dots_appends_fileName_witness:
  "(0::nat) < length [\<lparr>fileName = ''README'', displayName = ''README'',
        filePath = ''/drop/README'', timestamp = 0, selectedFolder = ''OneDrive Root'',
        selectedTags = [], isProcessing = False, isProcessed = False, result = None,
        error = None\<rparr>]
   \<and> CHR ''.'' \<notin> set ''README'' \<and> CHR ''.'' \<notin> set ''notes''
   \<and> displayName (handleFileNameChange 0 ''notes''
        [\<lparr>fileName = ''README'', displayName = ''README'',
          filePath = ''/drop/README'', timestamp = 0, selectedFolder = ''OneDrive Root'',
          selectedTags = [], isProcessing = False, isProcessed = False, result = None,
          error = None\<rparr>] ! 0) = ''notesREADME''"
  using rename_without_dots_appends_fileName [of 0
      "[\<lparr>fileName = ''README'', displayName = ''README'',
         filePath = ''/drop/README'', timestamp = 0, selectedFolder = ''OneDrive Root'',
         selectedTags = [], isProcessing = False, isProcessed = False, result = None,
         error = None\<rparr>]" "''notes''"]
  by simp

subsection \<open>Uniqueness of file paths in the queue\<close>

lemma list_ex_filePath:
  "list_ex (\<lambda>file. filePath file = path) prev \<longleftrightarrow> path \<in> set (map filePath prev)"
  by (auto simp: list_ex_iff)

lemma filePath_newFile [simp]: "filePath (newFile name path now folder) = path"
  by (simp add: newFile_def)

lemma handleFileDetected_known:
  "path \<in> set (map filePath prev) \<Longrightarrow> handleFileDetected r ref now path lp prev = prev"
  by (simp add: handleFileDetected_def list_ex_filePath del: set_map)

lemma handleNotificationClicked_known:
  "path \<in> set (map filePath prev) \<Longrightarrow>
   handleNotificationClicked r ref now name path prev = prev"
  by (simp add: handleNotificationClicked_def list_ex_filePath del: set_map split: option.split)

lemma distinct_handleFileDetected:
  "distinct (map filePath prev) \<Longrightarrow>
   distinct (map filePath (handleFileDetected r ref now path lp prev))"
  by (simp add: handleFileDetected_def list_ex_filePath Let_def del: set_map)

lemma distinct_handleNotificationClicked:
  "distinct (map filePath prev) \<Longrightarrow>
   distinct (map filePath (handleNotificationClicked r ref now name path prev))"
  by (simp add: handleNotificationClicked_def list_ex_filePath del: set_map split: option.split)

lemma filter_enumerate_above:
  "m < n \<Longrightarrow> map snd (filter (\<lambda>(j, x). j \<noteq> m) (enumerate n xs)) = xs"
  by (induction xs arbitrary: n) auto

lemma filter_enumerate_skip:
  "map snd (filter (\<lambda>(j, x). j \<noteq> n + i) (enumerate n xs)) = take i xs @ drop (Suc i) xs"
proof (induction xs arbitrary: n i)
  case Nil
  then show ?case by simp
next
  case (Cons x xs)
  show ?case
  proof (cases i)
    case 0
    then show ?thesis by (simp add: filter_enumerate_above)
  next
    case (Suc k)
    with Cons.IH [of "Suc n" k] show ?thesis by simp
  qed
qed

lemma removeAt_take_drop: "removeAt index prev = take index prev @ drop (Suc index) prev"
  using filter_enumerate_skip [of 0 index prev] by (simp add: removeAt_def)

lemma distinct_removeAt:
  "distinct (map f prev) \<Longrightarrow> distinct (map f (removeAt index prev))"
proof -
  assume d: "distinct (map f prev)"
  have "map f prev = map f (take index prev) @ map f (drop index prev)"
    by (metis append_take_drop_id map_append)
  with d have a: "distinct (map f (take index prev))"
    and b: "distinct (map f (drop index prev))"
    and c: "set (map f (take index prev)) \<inter> set (map f (drop index prev)) = {}"
    by (metis distinct_append)+
  have sub: "set (drop (Suc index) prev) \<subseteq> set (drop index prev)"
    by (metis Suc_n_not_le_n nat_le_linear set_drop_subset_set_drop)
  have "distinct (map f (drop (Suc index) prev))"
    using d by (metis distinct_drop drop_map)
  with a c sub show ?thesis
    by (auto simp: removeAt_take_drop)
qed

lemma map_mapi_invariant:
  "(\<And>i x. g (f i x) = g x) \<Longrightarrow> map g (mapi f xs) = map g xs"
  by (rule nth_equalityI) simp_all

lemma filePath_handleFileFolderChange:
  "map filePath (handleFileFolderChange i folder q) = map filePath q"
  unfolding handleFileFolderChange_def by (rule map_mapi_invariant) simp

lemma filePath_handleFileTagToggle:
  "map filePath (handleFileTagToggle i t q) = map filePath q"
  unfolding handleFileTagToggle_def by (rule map_mapi_invariant) simp

lemma filePath_handleFileNameChange:
  "map filePath (handleFileNameChange i n q) = map filePath q"
  unfolding handleFileNameChange_def by (rule map_mapi_invariant) simp

lemma distinct_apply_event:
  "distinct (map filePath q) \<Longrightarrow> distinct (map filePath (apply_event q ev))"
  by (cases ev)
     (simp_all add: distinct_handleFileDetected distinct_handleNotificationClicked
        distinct_removeAt filePath_handleFileFolderChange filePath_handleFileTagToggle
        filePath_handleFileNameChange)

lemma distinct_foldl_apply_event:
  "distinct (map filePath q) \<Longrightarrow> distinct (map filePath (foldl apply_event q evs))"
  by (induction evs arbitrary: q) (simp_all add: distinct_apply_event)

text \<open>
  C1.  Starting from the empty queue, after any sequence of events (detections by the
  watcher, notification clicks, removals and edits) no two entries of the queue have the
  same file path; and a detection or notification event for a path that already has an
  entry leaves the queue as it is.
\<close>

theorem queue_filePath_unique:
  "distinct (map filePath (run_events evs))
   \<and> (path \<in> set (map filePath (run_events evs)) \<longrightarrow>
        apply_event (run_events evs) (FileDetected r ref now path lp) = run_events evs
        \<and> apply_event (run_events evs) (NotificationClicked r ref now name path)
            = run_events evs)"
  using distinct_foldl_apply_event [of "[]" evs]
  by (simp add: run_events_def handleFileDetected_known handleNotificationClicked_known
      del: set_map)

theorem queue_filePath_unique_witness:
  "''/drop/a.pdf'' \<in> set (map filePath (run_events
       [FileDetected \<lparr>preferences = \<lparr>dropFolderPath = ''/drop'', oneDriveRootFolder = ''/'',
                        autoProcess = True\<rparr>, preferencesLoaded = True\<rparr>
          None 0 ''/drop/a.pdf'' None]))
   \<and> run_events
       [FileDetected \<lparr>preferences = \<lparr>dropFolderPath = ''/drop'', oneDriveRootFolder = ''/'',
                        autoProcess = True\<rparr>, preferencesLoaded = True\<rparr>
          None 0 ''/drop/a.pdf'' None,
        FileDetected \<lparr>preferences = \<lparr>dropFolderPath = ''/drop'', oneDriveRootFolder = ''/'',
                        autoProcess = True\<rparr>, preferencesLoaded = True\<rparr>
          None 5 ''/drop/a.pdf'' None]
     = [newFile ''/drop/a.pdf'' ''/drop/a.pdf'' 0 ''OneDrive Root'']"
  using queue_filePath_unique [of
      "[FileDetected \<lparr>preferences = \<lparr>dropFolderPath = ''/drop'', oneDriveRootFolder = ''/'',
                        autoProcess = True\<rparr>, preferencesLoaded = True\<rparr>
          None 0 ''/drop/a.pdf'' None]"
      "''/drop/a.pdf''"
      "\<lparr>preferences = \<lparr>dropFolderPath = ''/drop'', oneDriveRootFolder = ''/'',
                        autoProcess = True\<rparr>, preferencesLoaded = True\<rparr>"
      None 5 None "''a.pdf''"]
  by (simp add: run_events_def handleFileDetected_def baseName_def lastSegment_def
      backslash_def displayFolderFor_def fileDriveRoot_def indexOf_from_def substring_to_def)

subsection \<open>Processing\<close>

lemma mapi_mapi: "mapi f (mapi g xs) = mapi (\<lambda>i x. f i (g i x)) xs"
  by (rule nth_equalityI) simp_all

lemma mapi_ident [simp]: "mapi (\<lambda>i x. x) xs = xs"
  by (rule nth_equalityI) simp_all

lemma handleProcessSingleFile_eligible:
  "index < length detectedFiles \<Longrightarrow> eligible (detectedFiles ! index) \<Longrightarrow>
   handleProcessSingleFile env detectedFiles index (prev, log)
     = (mapi (\<lambda>i f. if i = index
                      then settle (snd (processFile env (detectedFiles ! index))) f else f) prev,
        log @ fst (processFile env (detectedFiles ! index)))"
proof -
  assume idx: "index < length detectedFiles" and el: "eligible (detectedFiles ! index)"
  obtain fx out where pf: "processFile env (detectedFiles ! index) = (fx, out)"
    by (cases "processFile env (detectedFiles ! index)")
  from idx el pf show ?thesis
    by (cases out)
       (auto simp: handleProcessSingleFile_def eligible_def mapi_mapi settle_def
             intro!: nth_equalityI)
qed

lemma findIndex_distinct:
  "distinct (map g xs) \<Longrightarrow> i < length xs \<Longrightarrow> findIndex (\<lambda>y. g y = g (xs ! i)) xs = Some i"
proof (induction xs arbitrary: i)
  case Nil
  then show ?case by simp
next
  case (Cons x xs)
  show ?case
  proof (cases i)
    case 0
    then show ?thesis by simp
  next
    case (Suc k)
    with Cons.prems have k: "k < length xs" and "g (xs ! k) \<in> set (map g xs)" by auto
    with Cons.prems have "g x \<noteq> g (xs ! k)" by auto
    with Cons.IH [of k] Cons.prems k Suc show ?thesis by simp
  qed
qed

lemma processLoop_char:
  "distinct (map filePath detectedFiles) \<Longrightarrow> set todo \<subseteq> set detectedFiles \<Longrightarrow>
   distinct todo \<Longrightarrow> (\<forall>f \<in> set todo. eligible f) \<Longrightarrow> length prev = length detectedFiles \<Longrightarrow>
   processLoop env detectedFiles todo (prev, log)
     = (mapi (\<lambda>j p. if detectedFiles ! j \<in> set todo
                     then settle (snd (processFile env (detectedFiles ! j))) p else p) prev,
        log @ joinDelays (map (\<lambda>f. fst (processFile env f)) todo))"
proof (induction todo arbitrary: prev log)
  case Nil
  show ?case by simp
next
  case (Cons f rest)
  let ?S = "\<lambda>j. settle (snd (processFile env (detectedFiles ! j)))"
  from Cons.prems obtain i where i: "i < length detectedFiles" and fi: "detectedFiles ! i = f"
    by (auto simp: in_set_conv_nth)
  have dd: "distinct detectedFiles"
    using Cons.prems(1) by (simp add: distinct_map)
  have find: "findIndex (\<lambda>g. filePath g = filePath f) detectedFiles = Some i"
    using findIndex_distinct [OF Cons.prems(1) i] fi by simp
  have el: "eligible (detectedFiles ! i)" using Cons.prems fi by simp
  let ?prev1 = "mapi (\<lambda>j p. if j = i then ?S i p else p) prev"
  have single: "handleProcessSingleFile env detectedFiles i (prev, log)
      = (?prev1, log @ fst (processFile env f))"
    using handleProcessSingleFile_eligible [OF i el, of env prev log] fi by simp
  have len1: "length ?prev1 = length detectedFiles" using Cons.prems by simp
  have rest_ok: "set rest \<subseteq> set detectedFiles" "distinct rest" "\<forall>f \<in> set rest. eligible f"
    using Cons.prems by auto
  have queue: "mapi (\<lambda>j p. if detectedFiles ! j \<in> set rest then ?S j p else p) ?prev1
      = mapi (\<lambda>j p. if detectedFiles ! j \<in> set (f # rest) then ?S j p else p) prev"
  proof (rule nth_equalityI)
    show "length (mapi (\<lambda>j p. if detectedFiles ! j \<in> set rest then ?S j p else p) ?prev1)
        = length (mapi (\<lambda>j p. if detectedFiles ! j \<in> set (f # rest) then ?S j p else p) prev)"
      by simp
  next
    fix j
    assume "j < length (mapi (\<lambda>j p. if detectedFiles ! j \<in> set rest then ?S j p else p) ?prev1)"
    then have j: "j < length prev" "j < length detectedFiles" using Cons.prems by simp_all
    show "mapi (\<lambda>j p. if detectedFiles ! j \<in> set rest then ?S j p else p) ?prev1 ! j
        = mapi (\<lambda>j p. if detectedFiles ! j \<in> set (f # rest) then ?S j p else p) prev ! j"
    proof (cases "j = i")
      case True
      moreover have "f \<notin> set rest" using Cons.prems by simp
      ultimately show ?thesis using j fi by simp
    next
      case False
      then have "detectedFiles ! j \<noteq> f"
        using dd i j fi by (auto simp: nth_eq_iff_index_eq)
      with False j show ?thesis by simp
    qed
  qed
  let ?log1 = "if rest \<noteq> [] then (log @ fst (processFile env f)) @ [Delay 1000]
              else log @ fst (processFile env f)"
  have "processLoop env detectedFiles (f # rest) (prev, log)
      = processLoop env detectedFiles rest (?prev1, ?log1)"
    using find single by simp
  also have "\<dots> = (mapi (\<lambda>j p. if detectedFiles ! j \<in> set rest then ?S j p else p) ?prev1,
      ?log1 @ joinDelays (map (\<lambda>f. fst (processFile env f)) rest))"
    using Cons.IH [OF Cons.prems(1) rest_ok len1] by simp
  also have "?log1 @ joinDelays (map (\<lambda>f. fst (processFile env f)) rest)
      = log @ joinDelays (map (\<lambda>f. fst (processFile env f)) (f # rest))"
    by (cases rest) simp_all
  finally show ?case using queue by simp
qed


lemma processFile_success:
  "currentUser env = Some user \<Longrightarrow> electronAPI env \<Longrightarrow>
   uploadToOneDrive env (filePath file) (displayName file) (oneDriveFolder file) = Resolved r \<Longrightarrow>
   createAssociations env user file r = (fx, Resolved a) \<Longrightarrow>
   processFile env file
     = (UploadToOneDrive (filePath file) (displayName file) (oneDriveFolder file) # fx
          @ deleteProcessed env (filePath file),
        Completed \<lparr>success = True, file_id = up_id r, one_drive_id = up_id r,
                   web_url = up_webUrl r, message = ''File uploaded and tagged successfully'',
                   associations = a\<rparr>)"
  by (simp add: processFile_def)




text \<open>
  The guard of \<open>handleProcessSingleFile\<close> looks at the entry of the captured queue: when
  that entry is processing or processed, the handler returns without an update or a call.
\<close>

lemma guard_on_captured_entry:
  "index < length detectedFiles \<Longrightarrow>
   isProcessing (detectedFiles ! index) \<or> isProcessed (detectedFiles ! index) \<Longrightarrow>
   handleProcessSingleFile env detectedFiles index (prev, log) = (prev, log)"
  by (auto simp: handleProcessSingleFile_def)

text \<open>
  C9.  The handler of an older render, as the loop of \<open>handleProcessAllFiles\<close> keeps
  calling, run on an entry that is processing in the live queue but still waiting in the
  queue the handler captured: the guard passes, the file is uploaded and its deletion
  attempted once more, and the live entry is overwritten as processed.
\<close>

theorem process_stale_handler_uploads_again:
  "isProcessing (sampleQueueStarted ! 2)
   \<and> \<not> isProcessing (sampleQueue ! 2) \<and> \<not> isProcessed (sampleQueue ! 2)
   \<and> snd (handleProcessSingleFile sampleEnv sampleQueue 2 (sampleQueueStarted, []))
       = [UploadToOneDrive ''/drop/invoice.pdf'' ''invoice.pdf'' (Some ''Finance/2024''),
          DeleteFile ''/drop/invoice.pdf'',
          Console ''[APP] Failed to delete file from drop folder'']
   \<and> fst (handleProcessSingleFile sampleEnv sampleQueue 2 (sampleQueueStarted, []))
       \<noteq> sampleQueueStarted
   \<and> isProcessed
        (fst (handleProcessSingleFile sampleEnv sampleQueue 2 (sampleQueueStarted, [])) ! 2)"
  by (simp add: sampleQueueStarted_def sampleQueue_def newFile_def sampleEnv_def
      oneDriveFolder_def handleProcessSingleFile_def processFile_def createAssociations_def
      deleteProcessed_def mapi_def)

text \<open>
  C3.  For an entry that is neither processing nor processed, with a user signed in and the
  bridge present: if the upload resolves and the association step resolves (or is skipped),
  and deleting the source file does not succeed (the call returns false or rejects), then
  the entry ends processed, not processing, with no error, and with the upload result
  stored; the deletion was attempted.
\<close>

theorem delete_failure_still_completed:
  "index < length detectedFiles \<Longrightarrow> index < length prev \<Longrightarrow>
   \<not> isProcessing (detectedFiles ! index) \<Longrightarrow> \<not> isProcessed (detectedFiles ! index) \<Longrightarrow>
   currentUser env = Some user \<Longrightarrow> electronAPI env \<Longrightarrow>
   uploadToOneDrive env (filePath (detectedFiles ! index)) (displayName (detectedFiles ! index))
     (oneDriveFolder (detectedFiles ! index)) = Resolved r \<Longrightarrow>
   snd (createAssociations env user (detectedFiles ! index) r) = Resolved a \<Longrightarrow>
   deleteFile env (filePath (detectedFiles ! index)) \<noteq> Resolved True \<Longrightarrow>
   isProcessed (fst (handleProcessSingleFile env detectedFiles index (prev, log)) ! index)
   \<and> \<not> isProcessing (fst (handleProcessSingleFile env detectedFiles index (prev, log)) ! index)
   \<and> error (fst (handleProcessSingleFile env detectedFiles index (prev, log)) ! index) = None
   \<and> result (fst (handleProcessSingleFile env detectedFiles index (prev, log)) ! index)
       = Some \<lparr>success = True, file_id = up_id r, one_drive_id = up_id r,
                web_url = up_webUrl r, message = ''File uploaded and tagged successfully'',
                associations = a\<rparr>
   \<and> DeleteFile (filePath (detectedFiles ! index))
       \<in> set (snd (handleProcessSingleFile env detectedFiles index (prev, log)))"
proof -
  let ?file = "detectedFiles ! index"
  assume idx: "index < length detectedFiles" "index < length prev"
    and free: "\<not> isProcessing ?file" "\<not> isProcessed ?file"
    and user: "currentUser env = Some user" and api: "electronAPI env"
    and up: "uploadToOneDrive env (filePath ?file) (displayName ?file) (oneDriveFolder ?file)
               = Resolved r"
    and assoc: "snd (createAssociations env user ?file r) = Resolved a"
  obtain fx where ca: "createAssociations env user ?file r = (fx, Resolved a)"
    using assoc by (cases "createAssociations env user ?file r") simp
  have del: "DeleteFile (filePath ?file) \<in> set (deleteProcessed env (filePath ?file))"
    by (simp add: deleteProcessed_def split: outcome.split)
  from free have el: "eligible ?file" by (simp add: eligible_def)
  show ?thesis
    using idx del
    by (simp add: handleProcessSingleFile_eligible [OF idx(1) el]
        processFile_success [OF user api up ca] settle_def)
qed

theorem delete_failure_still_completed_witness:
  "(2::nat) < length sampleQueue
   \<and> \<not> isProcessing (sampleQueue ! 2) \<and> \<not> isProcessed (sampleQueue ! 2)
   \<and> currentUser sampleEnv = Some sampleUser \<and> electronAPI sampleEnv
   \<and> deleteFile sampleEnv (filePath (sampleQueue ! 2)) \<noteq> Resolved True
   \<and> isProcessed (fst (handleProcessSingleFile sampleEnv sampleQueue 2 (sampleQueue, [])) ! 2)
   \<and> error (fst (handleProcessSingleFile sampleEnv sampleQueue 2 (sampleQueue, [])) ! 2) = None"
  using delete_failure_still_completed [of 2 sampleQueue sampleQueue sampleEnv sampleUser
      "\<lparr>up_id = ''item-invoice.pdf'', up_webUrl = ''https://drive.example.org/invoice.pdf''\<rparr>"
      "''[]''" "[]"]
  by (simp add: sampleQueue_def newFile_def sampleEnv_def oneDriveFolder_def
      createAssociations_def)

text \<open>
  C8.  Called on a queue with pairwise different file paths, \<open>handleProcessAllFiles\<close>
  processes exactly the entries that are neither processed nor processing: each of them ends
  as its own processing run settles it, whatever happened to the others, and every other
  entry is unchanged.  The calls are issued file by file in queue order, with one
  one-second delay between consecutive files; with nothing to process there is only the
  alert.
\<close>

theorem processAll_each_eligible:
  "distinct (map filePath q) \<Longrightarrow>
   handleProcessAllFiles env q (q, log)
     = (map (\<lambda>f. if eligible f then settle (snd (processFile env f)) f else f) q,
        log @ (if filter eligible q = [] then [Alert ''No files ready to process.'']
               else joinDelays (map (\<lambda>f. fst (processFile env f)) (filter eligible q))))"
proof -
  assume d: "distinct (map filePath q)"
  have filt: "filter (\<lambda>f. \<not> isProcessed f \<and> \<not> isProcessing f) q = filter eligible q"
    by (simp add: eligible_def [abs_def])
  show ?thesis
  proof (cases "filter eligible q = []")
    case True
    then have "\<forall>f \<in> set q. \<not> eligible f" by (simp add: filter_empty_conv)
    then have "map (\<lambda>f. if eligible f then settle (snd (processFile env f)) f else f) q = q"
      by (simp add: map_idI)
    with True filt show ?thesis by (simp add: handleProcessAllFiles_def)
  next
    case False
    have dq: "distinct q" using d by (simp add: distinct_map)
    have "processLoop env q (filter eligible q) (q, log)
        = (mapi (\<lambda>j p. if q ! j \<in> set (filter eligible q)
                        then settle (snd (processFile env (q ! j))) p else p) q,
           log @ joinDelays (map (\<lambda>f. fst (processFile env f)) (filter eligible q)))"
      using d dq by (intro processLoop_char) auto
    also have "mapi (\<lambda>j p. if q ! j \<in> set (filter eligible q)
                        then settle (snd (processFile env (q ! j))) p else p) q
        = map (\<lambda>f. if eligible f then settle (snd (processFile env f)) f else f) q"
      by (rule nth_equalityI) simp_all
    finally show ?thesis using False filt by (simp add: handleProcessAllFiles_def)
  qed
qed

theorem processAll_each_eligible_witness:
  "distinct (map filePath sampleQueue)
   \<and> map isProcessed (fst (handleProcessAllFiles sampleEnv sampleQueue (sampleQueue, [])))
       = [False, True, True]
   \<and> map error (fst (handleProcessAllFiles sampleEnv sampleQueue (sampleQueue, [])))
       = [Some ''Upload failed with status 401: {}'', None, None]
   \<and> snd (handleProcessAllFiles sampleEnv sampleQueue (sampleQueue, []))
       = [UploadToOneDrive ''/drop/broken.pdf'' ''broken.pdf'' None,
          Delay 1000,
          UploadToOneDrive ''/drop/invoice.pdf'' ''invoice.pdf'' (Some ''Finance/2024''),
          DeleteFile ''/drop/invoice.pdf'',
          Console ''[APP] Failed to delete file from drop folder'']"
  using processAll_each_eligible [of sampleQueue sampleEnv "[]"]
  by (simp add: sampleQueue_def newFile_def sampleEnv_def eligible_def settle_def
      processFile_def createAssociations_def deleteProcessed_def oneDriveFolder_def)





subsection \<open>Cache reads\<close>

text \<open>
  C7.  With the store open and a row stored under the key: a read at a time after the row's
  \<open>expires_at\<close> returns null and leaves the table without that row; a read at a time not
  after it returns what \<open>JSON.parse\<close> makes of the stored text, which is the stored value
  \<open>v\<close> whenever the text is the JSON text of \<open>v\<close>, and leaves the table as it is.
\<close>

theorem cache_read_expiry:
  "db = Some cache \<Longrightarrow> cache key = Some row \<Longrightarrow>
   (expires_at row < now \<longrightarrow>
      getCachedData parse now key db = (None, Some (cache(key := None))))
   \<and> (now \<le> expires_at row \<longrightarrow>
      getCachedData parse now key db = (parse (row_value row), db))
   \<and> (now \<le> expires_at row \<and> parse (row_value row) = Some v \<longrightarrow>
      getCachedData parse now key db = (Some v, db))"
  by (simp add: getCachedData_def)

theorem cache_read_expiry_witness:
  "[''tags'' \<mapsto> \<lparr>row_value = ''[1,2]'', expires_at = 50\<rparr>] ''tags''
     = Some \<lparr>row_value = ''[1,2]'', expires_at = 50\<rparr>
   \<and> expires_at \<lparr>row_value = ''[1,2]'', expires_at = 50\<rparr> < 100
   \<and> (50::int) \<le> expires_at \<lparr>row_value = ''[1,2]'', expires_at = 50\<rparr>
   \<and> fst (getCachedData Some 100 ''tags''
             (Some [''tags'' \<mapsto> \<lparr>row_value = ''[1,2]'', expires_at = 50\<rparr>])) = None
   \<and> the (snd (getCachedData Some 100 ''tags''
             (Some [''tags'' \<mapsto> \<lparr>row_value = ''[1,2]'', expires_at = 50\<rparr>]))) ''tags'' = None
   \<and> fst (getCachedData Some 50 ''tags''
             (Some [''tags'' \<mapsto> \<lparr>row_value = ''[1,2]'', expires_at = 50\<rparr>])) = Some ''[1,2]''
   \<and> the (snd (getCachedData Some 50 ''tags''
             (Some [''tags'' \<mapsto> \<lparr>row_value = ''[1,2]'', expires_at = 50\<rparr>]))) ''tags''
       = Some \<lparr>row_value = ''[1,2]'', expires_at = 50\<rparr>"
  using cache_read_expiry [of "Some [''tags'' \<mapsto> \<lparr>row_value = ''[1,2]'', expires_at = 50\<rparr>]"
      "[''tags'' \<mapsto> \<lparr>row_value = ''[1,2]'', expires_at = 50\<rparr>]" "''tags''"
      "\<lparr>row_value = ''[1,2]'', expires_at = 50\<rparr>" 100 Some "''[1,2]''"]
    cache_read_expiry [of "Some [''tags'' \<mapsto> \<lparr>row_value = ''[1,2]'', expires_at = 50\<rparr>]"
      "[''tags'' \<mapsto> \<lparr>row_value = ''[1,2]'', expires_at = 50\<rparr>]" "''tags''"
      "\<lparr>row_value = ''[1,2]'', expires_at = 50\<rparr>" 50 Some "''[1,2]''"]
  by (simp add: getCachedData_def)

subsection \<open>Uploading\<close>

lemma sent_request: "sent (snd (request pf rq s)) = sent s @ [rq]"
  by (simp add: request_def split: prod.split)

lemma world_request:
  "request pf rq s
     = (fst (axios pf (world s) rq),
        s\<lparr>world := snd (axios pf (world s) rq), sent := sent s @ [rq]\<rparr>)"
  by (simp add: request_def split: prod.split)

lemma sessionUpload_first:
  "sessionUpload pf token driveId t n buf s1 = (first, s2) \<Longrightarrow>
   \<exists>more. sent s2 = sent s1 @ sessionRequest token driveId t n # more"
  by (auto simp: sessionUpload_def world_request split: sum.splits prod.splits)

lemma sessionUpload_answer:
  "sessionUpload pf token driveId t n buf s1 = (first, s2) \<Longrightarrow>
   first = (case axios pf (world s1) (sessionRequest token driveId t n) of
              (Inl e, w) \<Rightarrow> Inl e
            | (Inr sessionResponse, w) \<Rightarrow>
                (case axios pf w (sessionPut (p_uploadUrl (data sessionResponse)) buf) of
                   (Inl e, w') \<Rightarrow> Inl e
                 | (Inr uploadResponse, w') \<Rightarrow> handleUploadResponse uploadResponse))"
  by (auto simp: sessionUpload_def world_request split: sum.splits prod.splits)

lemma simpleUpload_sent:
  "simpleUpload pf token driveId t n buf s2 = (second, s3) \<Longrightarrow>
   sent s3 = sent s2 @ [fallbackRequest token driveId t n buf]"
  by (auto simp: simpleUpload_def world_request split: sum.splits prod.splits)

lemma simpleUpload_answer:
  "simpleUpload pf token driveId t n buf s2 = (second, s3) \<Longrightarrow>
   second = (case axios pf (world s2) (fallbackRequest token driveId t n buf) of
               (Inl e, w) \<Rightarrow> Inl e
             | (Inr response, w) \<Rightarrow> handleUploadResponse response)"
  by (auto simp: simpleUpload_def world_request split: sum.splits prod.splits)

lemma same_target:
  "\<exists>p. rq_endpoint (sessionRequest token driveId t n) = CreateUploadSessionAt driveId p
       \<and> rq_endpoint (fallbackRequest token driveId t n buf) = ContentAt driveId p"
  by (simp add: sessionRequest_def fallbackRequest_def)

lemma uploadFile_cases:
  "getAccessToken pf = Inr token \<Longrightarrow> resolveDriveId pf s = (Inr driveId, s1) \<Longrightarrow>
   readFileSync pf path = Inr buf \<Longrightarrow>
   sessionUpload pf token driveId (targetPathOf folderArg) n buf s1 = (first, s2) \<Longrightarrow>
   simpleUpload pf token driveId (targetPathOf folderArg) n buf s2 = (second, s3) \<Longrightarrow>
   uploadFile pf path n folderArg s
     = (case first of
          Inr file \<Rightarrow> (Inr file, s2)
        | Inl e \<Rightarrow> (case second of
                      Inr file \<Rightarrow> (Inr file, s3)
                    | Inl fallbackError \<Rightarrow> (Inl (uploadErrorMessage fallbackError), s3)))"
  by (simp add: uploadFile_def split: sum.splits)

lemma sent_resolveDriveId: "resolveDriveId pf s = (found, s1) \<Longrightarrow> sent s1 = sent s"
  by (auto simp: resolveDriveId_def getDefaultDrive_def split: option.splits sum.splits if_splits)

text \<open>
  C4 (as amended).  \<open>uploadFile\<close> first obtains the access token, the drive id and the
  file bytes; when one of the three fails, the call fails with the message of that exception
  and no request has been sent.  Otherwise it first sends the session-creation request and,
  if that is answered, the bytes to the session URL.  If that attempt fails at either step
  (or its response is not a 2xx one), exactly one more request follows: the direct upload to
  the content endpoint of the same drive and item path.  The call then fails only if this
  direct upload fails too, and the message of the error is that of the direct upload's
  failure: \<open>Upload failed with status S: body\<close> when the failure carries an HTTP
  response, a network-error message when a request was made but not answered, and a generic
  upload-error message otherwise.
\<close>

theorem upload_session_then_fallback:
  "(getAccessToken pf = Inl e0 \<longrightarrow>
      uploadFile pf path n folderArg s = (Inl (uploadErrorMessage e0), s))
   \<and> (getAccessToken pf = Inr token \<and> resolveDriveId pf s = (Inl e0, s1) \<longrightarrow>
        uploadFile pf path n folderArg s = (Inl (uploadErrorMessage e0), s1)
        \<and> sent s1 = sent s)
   \<and> (getAccessToken pf = Inr token \<and> resolveDriveId pf s = (Inr driveId, s1)
        \<and> readFileSync pf path = Inl e0 \<longrightarrow>
        uploadFile pf path n folderArg s = (Inl (uploadErrorMessage e0), s1)
        \<and> sent s1 = sent s)
   \<and> (getAccessToken pf = Inr token \<and> resolveDriveId pf s = (Inr driveId, s1)
        \<and> readFileSync pf path = Inr buf
        \<and> sessionUpload pf token driveId (targetPathOf folderArg) n buf s1 = (first, s2)
        \<and> simpleUpload pf token driveId (targetPathOf folderArg) n buf s2 = (second, s3)
        \<longrightarrow>
        sent s1 = sent s
        \<and> (\<exists>more. sent s2
                    = sent s1 @ sessionRequest token driveId (targetPathOf folderArg) n # more)
        \<and> first = (case axios pf (world s1)
                           (sessionRequest token driveId (targetPathOf folderArg) n) of
                      (Inl e, w) \<Rightarrow> Inl e
                    | (Inr sessionResponse, w) \<Rightarrow>
                        (case axios pf w
                                (sessionPut (p_uploadUrl (data sessionResponse)) buf) of
                           (Inl e, w') \<Rightarrow> Inl e
                         | (Inr uploadResponse, w') \<Rightarrow> handleUploadResponse uploadResponse))
        \<and> sent s3 = sent s2 @ [fallbackRequest token driveId (targetPathOf folderArg) n buf]
        \<and> second = (case axios pf (world s2)
                            (fallbackRequest token driveId (targetPathOf folderArg) n buf) of
                       (Inl e, w) \<Rightarrow> Inl e
                     | (Inr response, w) \<Rightarrow> handleUploadResponse response)
        \<and> (\<exists>p. rq_endpoint (sessionRequest token driveId (targetPathOf folderArg) n)
                  = CreateUploadSessionAt driveId p
                \<and> rq_endpoint (fallbackRequest token driveId (targetPathOf folderArg) n buf)
                  = ContentAt driveId p)
        \<and> uploadFile pf path n folderArg s
            = (case first of
                 Inr file \<Rightarrow> (Inr file, s2)
               | Inl e \<Rightarrow> (case second of
                             Inr file \<Rightarrow> (Inr file, s3)
                           | Inl fallbackError \<Rightarrow>
                               (Inl (uploadErrorMessage fallbackError), s3)))
        \<and> (first = Inl e \<and> second = Inl fallbackError \<longrightarrow>
             fst (uploadFile pf path n folderArg s) = Inl (uploadErrorMessage fallbackError))
        \<and> (first = Inl e \<and> second = Inl (ResponseError st responseData) \<longrightarrow>
             fst (uploadFile pf path n folderArg s)
               = Inl (''Upload failed with status '' @ decimal st @ '': '' @ responseData)))
   \<and> uploadErrorMessage (ResponseError st responseData)
       = ''Upload failed with status '' @ decimal st @ '': '' @ responseData
   \<and> uploadErrorMessage (RequestError m) = ''Network error during upload: '' @ m
   \<and> uploadErrorMessage (OtherError m) = ''Upload error: '' @ m"
  (is "?tokenFails \<and> ?driveFails \<and> ?readFails \<and> (?ready \<longrightarrow> ?attempts)
       \<and> ?m1 \<and> ?m2 \<and> ?m3")
proof -
  have c1: ?tokenFails
    by (simp add: uploadFile_def)
  have c2: ?driveFails
  proof
    assume h: "getAccessToken pf = Inr token \<and> resolveDriveId pf s = (Inl e0, s1)"
    with sent_resolveDriveId [of pf s "Inl e0" s1]
    show "uploadFile pf path n folderArg s = (Inl (uploadErrorMessage e0), s1)
        \<and> sent s1 = sent s"
      by (simp add: uploadFile_def)
  qed
  have c3: ?readFails
  proof
    assume h: "getAccessToken pf = Inr token \<and> resolveDriveId pf s = (Inr driveId, s1)
        \<and> readFileSync pf path = Inl e0"
    with sent_resolveDriveId [of pf s "Inr driveId" s1]
    show "uploadFile pf path n folderArg s = (Inl (uploadErrorMessage e0), s1)
        \<and> sent s1 = sent s"
      by (simp add: uploadFile_def)
  qed
  have c4: "?ready \<longrightarrow> ?attempts"
  proof
    assume h: ?ready
    then have pre: "getAccessToken pf = Inr token" "resolveDriveId pf s = (Inr driveId, s1)"
        "readFileSync pf path = Inr buf"
      and a1: "sessionUpload pf token driveId (targetPathOf folderArg) n buf s1 = (first, s2)"
      and a2: "simpleUpload pf token driveId (targetPathOf folderArg) n buf s2 = (second, s3)"
      by simp_all
    note whole = uploadFile_cases [OF pre a1 a2]
    have general: "first = Inl e \<and> second = Inl fallbackError \<longrightarrow>
        fst (uploadFile pf path n folderArg s) = Inl (uploadErrorMessage fallbackError)"
      by (simp add: whole)
    have last: "first = Inl e \<and> second = Inl (ResponseError st responseData) \<longrightarrow>
        fst (uploadFile pf path n folderArg s)
          = Inl (''Upload failed with status '' @ decimal st @ '': '' @ responseData)"
      by (simp add: whole uploadErrorMessage_def)
    show ?attempts
      apply (rule conjI, rule sent_resolveDriveId [OF pre(2)])
      apply (rule conjI, rule sessionUpload_first [OF a1])
      apply (rule conjI, rule sessionUpload_answer [OF a1])
      apply (rule conjI, rule simpleUpload_sent [OF a2])
      apply (rule conjI, rule simpleUpload_answer [OF a2])
      apply (rule conjI, rule same_target)
      apply (rule conjI, rule whole)
      apply (rule conjI, rule general)
      apply (rule last)
      done
  qed
  have c5: ?m1 and c6: ?m2 and c7: ?m3
    by (simp_all add: uploadErrorMessage_def)
  from c1 c2 c3 c4 c5 c6 c7 show ?thesis by (intro conjI)
qed

theorem upload_session_then_fallback_witness:
  "getAccessToken signedOutPlatform = Inl (OtherError ''interaction_required'')
   \<and> uploadFile signedOutPlatform ''/drop/a.pdf'' ''a.pdf'' (Some ''Finance/2024'') sampleService
       = (Inl ''Upload error: interaction_required'', sampleService)
   \<and> getAccessToken rejectingPlatform = Inr ''token''
   \<and> resolveDriveId rejectingPlatform newService
       = (Inl (OtherError ''No OneDrive drives found. Available drives: []''), newService)
   \<and> uploadFile rejectingPlatform ''/drop/a.pdf'' ''a.pdf'' (Some ''Finance/2024'') newService
       = (Inl ''Upload error: No OneDrive drives found. Available drives: []'', newService)
   \<and> getAccessToken unreadablePlatform = Inr ''token''
   \<and> resolveDriveId unreadablePlatform sampleService = (Inr ''drive-1'', sampleService)
   \<and> readFileSync unreadablePlatform ''/drop/a.pdf''
       = Inl (OtherError ''ENOENT: no such file or directory'')
   \<and> uploadFile unreadablePlatform ''/drop/a.pdf'' ''a.pdf'' (Some ''Finance/2024'')
         sampleService
       = (Inl ''Upload error: ENOENT: no such file or directory'', sampleService)
   \<and> resolveDriveId rejectingPlatform sampleService = (Inr ''drive-1'', sampleService)
   \<and> readFileSync rejectingPlatform ''/drop/a.pdf'' = Inr [80, 68, 70]
   \<and> sessionUpload rejectingPlatform ''token'' ''drive-1''
         (targetPathOf (Some ''Finance/2024'')) ''a.pdf'' [80, 68, 70] sampleService
       = (Inl (ResponseError 500 ''{error: generalException}''),
          sampleService\<lparr>sent := [sessionRequest ''token'' ''drive-1'' ''Finance/2024''
                                     ''a.pdf'']\<rparr>)
   \<and> simpleUpload rejectingPlatform ''token'' ''drive-1''
         (targetPathOf (Some ''Finance/2024'')) ''a.pdf'' [80, 68, 70]
         (sampleService\<lparr>sent := [sessionRequest ''token'' ''drive-1'' ''Finance/2024''
                                    ''a.pdf'']\<rparr>)
       = (Inl (ResponseError 401 ''{error: InvalidAuthenticationToken}''),
          sampleService\<lparr>sent := [sessionRequest ''token'' ''drive-1'' ''Finance/2024''
                                     ''a.pdf'',
                                   fallbackRequest ''token'' ''drive-1'' ''Finance/2024''
                                     ''a.pdf'' [80, 68, 70]]\<rparr>)
   \<and> fst (uploadFile rejectingPlatform ''/drop/a.pdf'' ''a.pdf'' (Some ''Finance/2024'')
             sampleService)
       = Inl ''Upload failed with status 401: {error: InvalidAuthenticationToken}''
   \<and> map (\<lambda>rq. url_of (rq_endpoint rq))
         (sent (snd (uploadFile rejectingPlatform ''/drop/a.pdf'' ''a.pdf''
                       (Some ''Finance/2024'') sampleService)))
       = [''https://graph.microsoft.com/v1.0/drives/drive-1/root:/Finance/2024/a.pdf:/createUploadSession'',
          ''https://graph.microsoft.com/v1.0/drives/drive-1/root:/Finance/2024/a.pdf:/content'']"
proof -
  let ?s2 = "sampleService\<lparr>sent := [sessionRequest ''token'' ''drive-1'' ''Finance/2024''
                                          ''a.pdf'']\<rparr>"
  let ?s3 = "sampleService\<lparr>sent := [sessionRequest ''token'' ''drive-1'' ''Finance/2024''
                                          ''a.pdf'',
                                        fallbackRequest ''token'' ''drive-1'' ''Finance/2024''
                                          ''a.pdf'' [80, 68, 70]]\<rparr>"
  have tp: "targetPathOf (Some ''Finance/2024'') = ''Finance/2024''"
    by (simp add: targetPathOf_def stripRootAlias_def rootAlias_def backslash_def)
  have t0: "getAccessToken signedOutPlatform = Inl (OtherError ''interaction_required'')"
    by (simp add: signedOutPlatform_def)
  have t1: "getAccessToken rejectingPlatform = Inr ''token''"
    by (simp add: rejectingPlatform_def)
  have t2: "getAccessToken unreadablePlatform = Inr ''token''"
    by (simp add: unreadablePlatform_def rejectingPlatform_def)
  have d0: "resolveDriveId rejectingPlatform newService
      = (Inl (OtherError ''No OneDrive drives found. Available drives: []''), newService)"
    by (simp add: resolveDriveId_def newService_def getDefaultDrive_def pickDrive_def
        rejectingPlatform_def)
  have d1: "resolveDriveId rejectingPlatform sampleService = (Inr ''drive-1'', sampleService)"
    by (simp add: resolveDriveId_def sampleService_def)
  have d2: "resolveDriveId unreadablePlatform sampleService = (Inr ''drive-1'', sampleService)"
    by (simp add: resolveDriveId_def sampleService_def)
  have r0: "readFileSync unreadablePlatform ''/drop/a.pdf''
      = Inl (OtherError ''ENOENT: no such file or directory'')"
    by (simp add: unreadablePlatform_def)
  have r1: "readFileSync rejectingPlatform ''/drop/a.pdf'' = Inr [80, 68, 70]"
    by (simp add: rejectingPlatform_def)
  have u1: "sessionUpload rejectingPlatform ''token'' ''drive-1''
        (targetPathOf (Some ''Finance/2024'')) ''a.pdf'' [80, 68, 70] sampleService
      = (Inl (ResponseError 500 ''{error: generalException}''), ?s2)"
    by (simp add: tp sessionUpload_def request_def rejectingPlatform_def sampleService_def
        sessionRequest_def)
  have u2: "simpleUpload rejectingPlatform ''token'' ''drive-1''
        (targetPathOf (Some ''Finance/2024'')) ''a.pdf'' [80, 68, 70] ?s2
      = (Inl (ResponseError 401 ''{error: InvalidAuthenticationToken}''), ?s3)"
    by (simp add: tp simpleUpload_def request_def rejectingPlatform_def sampleService_def
        fallbackRequest_def)
  have a: "uploadFile signedOutPlatform ''/drop/a.pdf'' ''a.pdf'' (Some ''Finance/2024'')
        sampleService
      = (Inl ''Upload error: interaction_required'', sampleService)"
    using upload_session_then_fallback [THEN conjunct1, THEN mp, OF t0] by (simp add: uploadErrorMessage_def)
  have b: "uploadFile rejectingPlatform ''/drop/a.pdf'' ''a.pdf'' (Some ''Finance/2024'')
        newService
      = (Inl ''Upload error: No OneDrive drives found. Available drives: []'', newService)"
    using upload_session_then_fallback [THEN conjunct2, THEN conjunct1, THEN mp, OF conjI [OF t1 d0]]
    by (simp add: uploadErrorMessage_def)
  have c: "uploadFile unreadablePlatform ''/drop/a.pdf'' ''a.pdf'' (Some ''Finance/2024'')
        sampleService
      = (Inl ''Upload error: ENOENT: no such file or directory'', sampleService)"
    using upload_session_then_fallback [THEN conjunct2, THEN conjunct2, THEN conjunct1, THEN mp,
        OF conjI [OF t2 conjI [OF d2 r0]]]
    by (simp add: uploadErrorMessage_def)
  note d = upload_session_then_fallback [THEN conjunct2, THEN conjunct2, THEN conjunct2, THEN conjunct1, THEN mp,
      OF conjI [OF t1 conjI [OF d1 conjI [OF r1 conjI [OF u1 u2]]]]]
  have whole: "uploadFile rejectingPlatform ''/drop/a.pdf'' ''a.pdf'' (Some ''Finance/2024'')
        sampleService
      = (Inl (uploadErrorMessage (ResponseError 401 ''{error: InvalidAuthenticationToken}'')),
         ?s3)"
    using d by simp
  have e: "fst (uploadFile rejectingPlatform ''/drop/a.pdf'' ''a.pdf'' (Some ''Finance/2024'')
        sampleService)
      = Inl ''Upload failed with status 401: {error: InvalidAuthenticationToken}''"
    by (simp add: whole uploadErrorMessage_def decimal.simps)
  have f: "map (\<lambda>rq. url_of (rq_endpoint rq))
        (sent (snd (uploadFile rejectingPlatform ''/drop/a.pdf'' ''a.pdf''
                      (Some ''Finance/2024'') sampleService)))
      = [''https://graph.microsoft.com/v1.0/drives/drive-1/root:/Finance/2024/a.pdf:/createUploadSession'',
         ''https://graph.microsoft.com/v1.0/drives/drive-1/root:/Finance/2024/a.pdf:/content'']"
    by (simp add: whole sessionRequest_def fallbackRequest_def graphDrives_def)
  from t0 a t1 d0 b t2 d2 r0 c d1 r1 u1 u2 e f show ?thesis
    by (intro conjI)
qed

text \<open>
  The claim as stated fails in two ways.  Without network both attempts fail and the error
  carries no HTTP status or body; and when the token cannot be acquired the upload fails
  although neither attempt was made.
\<close>

theorem upload_session_then_fallback_counterexample:
  "fst (uploadFile offlinePlatform ''/drop/a.pdf'' ''a.pdf'' None sampleService)
     = Inl ''Network error during upload: socket hang up''
   \<and> length (sent (snd (uploadFile offlinePlatform ''/drop/a.pdf'' ''a.pdf'' None
                            sampleService))) = 2
   \<and> fst (uploadFile signedOutPlatform ''/drop/a.pdf'' ''a.pdf'' None sampleService)
       = Inl ''Upload error: interaction_required''
   \<and> sent (snd (uploadFile signedOutPlatform ''/drop/a.pdf'' ''a.pdf'' None sampleService))
       = []"
  by (simp add: offlinePlatform_def signedOutPlatform_def rejectingPlatform_def
      sampleService_def resolveDriveId_def sessionUpload_def simpleUpload_def request_def
      targetPathOf_def uploadFile_def uploadErrorMessage_def)

subsection \<open>Finding or creating a folder\<close>

lemma createRequest_rename:
  "rq_body (createRequest token driveId folderName parentFolderId) = NewFolder folderName ''rename''"
  by (simp add: createRequest_def)

lemma resolveDriveId_known:
  "currentDriveId s = Some d \<Longrightarrow> d \<noteq> [] \<Longrightarrow> resolveDriveId pf s = (Inr d, s)"
  by (simp add: resolveDriveId_def)

lemma request_keeps_drive: "currentDriveId (snd (request pf rq s)) = currentDriveId s"
  by (simp add: request_def split: prod.split)

lemma createFolder_sent:
  "getAccessToken pf = Inr token \<Longrightarrow> currentDriveId s = Some d \<Longrightarrow> d \<noteq> [] \<Longrightarrow>
   sent (snd (createFolder pf nm parent s)) = sent s @ [createRequest token d nm parent]
   \<and> currentDriveId (snd (createFolder pf nm parent s)) = Some d"
  by (simp add: createFolder_def resolveDriveId_known request_def split: prod.split sum.split)

lemma createParts_sent:
  "getAccessToken pf = Inr token \<Longrightarrow> currentDriveId s = Some d \<Longrightarrow> d \<noteq> [] \<Longrightarrow>
   \<exists>more. sent (snd (createParts pf parts cur s)) = sent s @ more"
proof (induction parts arbitrary: cur s)
  case Nil
  then show ?case by simp
next
  case (Cons part rest)
  obtain r s1 where cf: "createFolder pf part cur s = (r, s1)"
    by (cases "createFolder pf part cur s")
  with createFolder_sent [OF Cons.prems, of part cur]
  have s1: "sent s1 = sent s @ [createRequest token d part cur]" "currentDriveId s1 = Some d"
    by simp_all
  show ?case
  proof (cases r)
    case (Inl e)
    with cf s1 show ?thesis by simp
  next
    case (Inr folder)
    from Cons.IH [OF Cons.prems(1) s1(2) Cons.prems(3), of "folder_id folder"]
    obtain more where "sent (snd (createParts pf rest (folder_id folder) s1)) = sent s1 @ more"
      by blast
    with cf s1 Inr show ?thesis by simp
  qed
qed

lemma createParts_first:
  "getAccessToken pf = Inr token \<Longrightarrow> currentDriveId s = Some d \<Longrightarrow> d \<noteq> [] \<Longrightarrow>
   \<exists>more. sent (snd (createParts pf (part # rest) cur s))
            = sent s @ createRequest token d part cur # more"
proof -
  assume pre: "getAccessToken pf = Inr token" "currentDriveId s = Some d" "d \<noteq> []"
  obtain r s1 where cf: "createFolder pf part cur s = (r, s1)"
    by (cases "createFolder pf part cur s")
  with createFolder_sent [OF pre, of part cur]
  have s1: "sent s1 = sent s @ [createRequest token d part cur]" "currentDriveId s1 = Some d"
    by simp_all
  show ?thesis
  proof (cases r)
    case (Inl e)
    with cf s1 show ?thesis by simp
  next
    case (Inr folder)
    from createParts_sent [OF pre(1) s1(2) pre(3), of rest "folder_id folder"]
    obtain more where "sent (snd (createParts pf rest (folder_id folder) s1)) = sent s1 @ more"
      by blast
    with cf s1 Inr show ?thesis by simp
  qed
qed

lemma findFolderByPath_creates_first_part:
  "getAccessToken pf = Inr token \<Longrightarrow> currentDriveId s = Some d \<Longrightarrow> d \<noteq> [] \<Longrightarrow>
   fst (axios pf (world s) (lookupRequest token (ItemByPath d (cleanPathOf folderPath))))
     = Inl (ResponseError 404 responseData) \<Longrightarrow>
   pathParts (cleanPathOf folderPath) = part # rest \<Longrightarrow>
   \<exists>more. sent (snd (findFolderByPath pf folderPath s))
            = sent s @ lookupRequest token (ItemByPath d (cleanPathOf folderPath))
                # createRequest token d part ''root'' # more"
proof -
  assume pre: "getAccessToken pf = Inr token" "currentDriveId s = Some d" "d \<noteq> []"
    and miss: "fst (axios pf (world s) (lookupRequest token (ItemByPath d (cleanPathOf folderPath))))
       = Inl (ResponseError 404 responseData)"
    and parts: "pathParts (cleanPathOf folderPath) = part # rest"
  let ?get = "lookupRequest token (ItemByPath d (cleanPathOf folderPath))"
  define s2 where "s2 = s\<lparr>world := snd (axios pf (world s) ?get), sent := sent s @ [?get]\<rparr>"
  have rq: "request pf ?get s = (Inl (ResponseError 404 responseData), s2)"
    using miss by (simp add: world_request s2_def)
  have s2: "sent s2 = sent s @ [?get]" "currentDriveId s2 = Some d"
    using pre by (simp_all add: s2_def)
  from createParts_first [OF pre(1) s2(2) pre(3), of part rest "''root''"]
  obtain more where more: "sent (snd (createParts pf (part # rest) ''root'' s2))
      = sent s2 @ createRequest token d part ''root'' # more"
    by blast
  obtain found s3 where cp: "createParts pf (part # rest) ''root'' s2 = (found, s3)"
    by (cases "createParts pf (part # rest) ''root'' s2")
  with more have s3: "sent s3 = sent s2 @ createRequest token d part ''root'' # more" by simp
  show ?thesis
  proof (cases found)
    case None
    with pre rq cp s2 s3 parts show ?thesis
      by (simp add: findFolderByPath_def resolveDriveId_known)
  next
    case (Some cur)
    have "sent (snd (request pf (lookupRequest token (ItemById d cur)) s3))
        = sent s3 @ [lookupRequest token (ItemById d cur)]"
      by (simp add: request_def split: prod.split)
    with pre rq cp s2 s3 parts Some show ?thesis
      by (auto simp: findFolderByPath_def resolveDriveId_known split: prod.split sum.split)
  qed
qed

text \<open>
  C6.  The search run on a drive whose root already holds the folder \<open>A\<close>, for the path
  \<open>A/B\<close>.  The lookup of \<open>A/B\<close> is answered 404; the client then asks for the
  creation of \<open>A\<close> under the root, although \<open>A\<close> exists, and of \<open>B\<close> under the
  folder that request returned, both with conflict behaviour \<open>rename\<close>.  The drive ends
  with a second folder \<open>A 1\<close> that holds \<open>B\<close>; that \<open>B\<close> is the folder returned, and
  the path \<open>A/B\<close> still does not resolve.
\<close>

theorem findFolderByPath_existing_ancestor:
  "resolvePath (world driveWithA) ''root'' [''A''] = Some ''folder-1''
   \<and> fst (findFolderByPath graphPlatform ''A/B'' driveWithA)
       = Some \<lparr>folder_id = ''folder-3'', folder_name = ''B'',
                folder_webUrl = ''https://drive.example.org/folder-3'',
                folder_createdDateTime = ''2025-01-01T09:00:00Z'',
                folder_lastModifiedDateTime = ''2025-01-01T09:00:00Z''\<rparr>
   \<and> world (snd (findFolderByPath graphPlatform ''A/B'' driveWithA))
       = [\<lparr>rf_id = ''folder-1'', rf_parent = ''root'', rf_name = ''A''\<rparr>,
          \<lparr>rf_id = ''folder-2'', rf_parent = ''root'', rf_name = ''A 1''\<rparr>,
          \<lparr>rf_id = ''folder-3'', rf_parent = ''folder-2'', rf_name = ''B''\<rparr>]
   \<and> map rq_body (sent (snd (findFolderByPath graphPlatform ''A/B'' driveWithA)))
       = [NoBody, NewFolder ''A'' ''rename'', NewFolder ''B'' ''rename'', NoBody]
   \<and> map rq_endpoint (sent (snd (findFolderByPath graphPlatform ''A/B'' driveWithA)))
       = [ItemByPath ''drive-1'' ''A/B'', ChildrenOf ''drive-1'' ''root'',
          ChildrenOf ''drive-1'' ''folder-2'', ItemById ''drive-1'' ''folder-3'']
   \<and> resolvePath (world (snd (findFolderByPath graphPlatform ''A/B'' driveWithA)))
         ''root'' [''A'', ''B''] = None"
  by (simp add: findFolderByPath_def graphPlatform_def driveWithA_def resolveDriveId_def
      request_def lookupRequest_def cleanPathOf_def toForwardSlashes_def backslash_def
      graphFolders_def pathParts_def childNamed_def notFound_def createFolder_def
      createRequest_def freeName_def decimal.simps itemOf_def folderOf_def bearer_def)

end
